theory Spec2Isabelle
  imports Complex_Main "HOL-Library.Sublist" "HOL-Library.Word"
begin

section \<open>Python values, strings and errors\<close>

text \<open>
  A Python \<open>str\<close> is modelled as a \<^typ>\<open>string\<close>, each \<^typ>\<open>char\<close> standing for
  one code point below 256. \<open>str.strip()\<close> without argument removes the code points
  for which \<open>str.isspace\<close> holds; below 256 these are U+0009..U+000D, U+001C..U+001F,
  U+0020, U+0085 and U+00A0.
\<close>

definition is_space :: "char \<Rightarrow> bool" where
  "is_space c = (c \<in> set [CHR 0x09, CHR 0x0A, CHR 0x0B, CHR 0x0C, CHR 0x0D,
                            CHR 0x1C, CHR 0x1D, CHR 0x1E, CHR 0x1F,
                            CHR 0x20, CHR 0x85, CHR 0xA0])"

definition lstrip :: "string \<Rightarrow> string" where
  "lstrip s = dropWhile is_space s"

definition rstrip :: "string \<Rightarrow> string" where
  "rstrip s = rev (dropWhile is_space (rev s))"

definition strip :: "string \<Rightarrow> string" where
  "strip s = rstrip (lstrip s)"

text \<open>\<open>x or ""\<close> for an argument that is a \<open>str\<close> or \<open>None\<close>.\<close>

definition or_empty :: "string option \<Rightarrow> string" where
  "or_empty x = (case x of None \<Rightarrow> [] | Some s \<Rightarrow> (if s = [] then [] else s))"

text \<open>Keys used in subscripts: a \<open>str\<close> or an \<open>int\<close>.\<close>

datatype key = KStr string | KInt int

text \<open>
  The exceptions the module raises or catches; the payload is the message.
  \<open>OtherError\<close> stands for an exception of a class the module does not name, such as
  what reading from a socket raises.
\<close>

datatype py_error =
    ValueError string
  | RuntimeError string
  | KeyError key
  | IndexError
  | TypeError
  | JSONDecodeError
  | OtherError string

text \<open>
  The values \<open>json.loads\<close> produces and the request payload is built from. The type
  \<open>'f\<close> stands for Python's \<open>float\<close>; nothing in the module computes with it.
\<close>

datatype 'f py_value =
    PyNone
  | PyBool bool
  | PyInt int
  | PyFloat 'f
  | PyStr string
  | PyList "'f py_value list"
  | PyDict "(string \<times> 'f py_value) list"

text \<open>\<open>str(n)\<close> for an \<open>int\<close>: the decimal digits, with a minus sign when negative.\<close>

definition digit_char :: "nat \<Rightarrow> char" where
  "digit_char d = char_of (of_char (CHR ''0'') + d)"

fun str_nat :: "nat \<Rightarrow> string" where
  "str_nat n = (if n < 10 then [digit_char n] else str_nat (n div 10) @ [digit_char (n mod 10)])"

declare str_nat.simps [simp del]

definition str_int :: "int \<Rightarrow> string" where
  "str_int i = (if i < 0 then CHR ''-'' # str_nat (nat (- i)) else str_nat (nat i))"

section \<open>Dictionaries\<close>

text \<open>
  A dict literal with string keys is an association list in the order of the source;
  \<open>d[k]\<close> raises \<open>KeyError\<close> on a missing key, \<open>d.get(k, default)\<close> never raises.
\<close>

definition dict_getitem :: "(string \<times> 'v) list \<Rightarrow> string \<Rightarrow> py_error + 'v" where
  "dict_getitem d k = (case map_of d k of None \<Rightarrow> Inl (KeyError (KStr k)) | Some v \<Rightarrow> Inr v)"

definition dict_get :: "(string \<times> 'v) list \<Rightarrow> string \<Rightarrow> 'v \<Rightarrow> 'v" where
  "dict_get d k dflt = (case map_of d k of None \<Rightarrow> dflt | Some v \<Rightarrow> v)"

definition dict_keys :: "(string \<times> 'v) list \<Rightarrow> string list" where
  "dict_keys d = map fst d"

section \<open>The static tables\<close>

definition DEEPSEEK_API_URL :: string where
  "DEEPSEEK_API_URL = ''https://api.deepseek.com/chat/completions''"

definition SYSTEM_PROMPT_PRESETS :: "(string \<times> string) list" where
  "SYSTEM_PROMPT_PRESETS =
   [(''Improve prompt (default)'',
       ''You are an expert prompt engineer for image generation. '' @
       ''Rewrite and improve the user's prompt to be clearer, richer in visual details, '' @
       ''composition, lighting, style, quality tags, and camera/lens hints when relevant. '' @
       ''Return only the final improved prompt text.''),
    (''Create prompt from idea'',
       ''You are an expert prompt engineer for image generation. '' @
       ''If user provides an idea, produce one strong, production-ready image prompt. '' @
       ''If input is empty, invent a compelling prompt yourself. '' @
       ''Return only the final prompt text.''),
    (''Photorealistic refinement'',
       ''You improve prompts for photorealistic image generation. '' @
       ''Add scene detail, lens/camera cues, realistic lighting, textures, and composition. '' @
       ''Avoid fantasy terms unless user asks. Return only the final prompt text.''),
    (''Cinematic style'',
       ''You improve prompts in cinematic style. '' @
       ''Enhance storytelling, framing, mood, color grading, lighting direction, and shot type. '' @
       ''Return only the final prompt text.''),
    (''Anime style'',
       ''You improve prompts for anime-style image generation. '' @
       ''Enhance character design, line style, palette, mood, and composition. '' @
       ''Return only the final prompt text.''),
    (''Custom'', '''')]"

definition TARGET_MODEL_HINTS :: "(string \<times> string) list" where
  "TARGET_MODEL_HINTS =
   [(''z-image turbo'',
       ''Prioritize concise but high-signal wording with strong visual anchors and minimal redundancy.''),
    (''nano banana pro'',
       ''Use practical, concrete descriptors and stable composition instructions.''),
    (''seedream 4.5'',
       ''Emphasize imaginative atmosphere, cinematic lighting, and rich scene storytelling.''),
    (''flux 2 klein 9b'',
       ''Use clear structure with subject, environment, lighting, and style in predictable order.''),
    (''qwen image 2512'',
       ''Provide balanced detail and explicit visual constraints for reliable output.''),
    (''qwen edit image 2511'',
       ''Write edit-oriented instructions, preserving base content while specifying precise changes.''),
    (''sdxl'',
       ''Use SDXL-friendly descriptive style with clear subject, style, composition, and quality cues.'')]"

definition PROMPT_STYLE_HINTS :: "(string \<times> string) list" where
  "PROMPT_STYLE_HINTS =
   [(''Short'', ''Keep the output short and compact.''),
    (''Detailed'', ''Provide a detailed, information-rich prompt.''),
    (''Artistic'', ''Use expressive artistic language and mood-driven descriptors.''),
    (''Cinematic'', ''Use cinematic framing, shot language, and color-grading cues.''),
    (''Technical'', ''Use technical, precise wording focused on controllable visual attributes.'')]"

definition LANGUAGE_HINTS :: "(string \<times> string) list" where
  "LANGUAGE_HINTS =
   [(''english'', ''Return the final prompt in English only.''),
    (''chinese'', ''Return the final prompt in Simplified Chinese only.'')]"

section \<open>The declared input schema\<close>

text \<open>The enumerated choices of \<open>INPUT_TYPES\<close>, each with its declared default.\<close>

definition model_choices :: "string list" where
  "model_choices = [''deepseek-chat'', ''deepseek-reasoner'']"

definition output_language_choices :: "string list" where
  "output_language_choices = [''english'', ''chinese'']"

definition target_model_choices :: "string list" where
  "target_model_choices =
   [''z-image turbo'', ''nano banana pro'', ''seedream 4.5'', ''flux 2 klein 9b'',
    ''qwen image 2512'', ''qwen edit image 2511'', ''sdxl'']"

definition prompt_style_choices :: "string list" where
  "prompt_style_choices = [''Short'', ''Detailed'', ''Artistic'', ''Cinematic'', ''Technical'']"

definition system_prompt_mode_choices :: "string list" where
  "system_prompt_mode_choices = dict_keys SYSTEM_PROMPT_PRESETS"

section \<open>The prompt composer\<close>

definition resolve_system_prompt :: "string \<Rightarrow> string option \<Rightarrow> py_error + string" where
  "resolve_system_prompt system_prompt_mode custom_system_prompt =
   (if system_prompt_mode = ''Custom'' then
      (let custom_value = strip (or_empty custom_system_prompt) in
       if custom_value = [] then
         Inl (ValueError ''system_prompt_mode is Custom, but custom_system_prompt is empty.'')
       else Inr custom_value)
    else
      (case dict_getitem SYSTEM_PROMPT_PRESETS ''Improve prompt (default)'' of
         Inl e \<Rightarrow> Inl e
       | Inr dflt \<Rightarrow> Inr (dict_get SYSTEM_PROMPT_PRESETS system_prompt_mode dflt)))"

definition control_block :: "string \<Rightarrow> string \<Rightarrow> string \<Rightarrow> string \<Rightarrow> string \<Rightarrow> string \<Rightarrow> string" where
  "control_block target_model target_model_hint prompt_style style_hint output_language language_hint =
     ''Generation requirements:\<newline>'' @
     ''- Target image model: '' @ target_model @ ''\<newline>'' @
     ''- Model adaptation note: '' @ target_model_hint @ ''\<newline>'' @
     ''- Prompt style: '' @ prompt_style @ ''. '' @ style_hint @ ''\<newline>'' @
     ''- Output language: '' @ output_language @ ''. '' @ language_hint @ ''\<newline>'' @
     ''- Return only the final prompt text with no explanation.''"

definition build_user_message ::
  "string option \<Rightarrow> string \<Rightarrow> string \<Rightarrow> string \<Rightarrow> py_error + string" where
  "build_user_message text output_language target_model prompt_style =
   (let clean_text = strip (or_empty text) in
    (case dict_getitem LANGUAGE_HINTS ''english'' of
       Inl e \<Rightarrow> Inl e
     | Inr language_dflt \<Rightarrow>
    (let language_hint = dict_get LANGUAGE_HINTS output_language language_dflt in
    (case dict_getitem TARGET_MODEL_HINTS ''sdxl'' of
       Inl e \<Rightarrow> Inl e
     | Inr target_dflt \<Rightarrow>
    (let target_model_hint = dict_get TARGET_MODEL_HINTS target_model target_dflt in
    (case dict_getitem PROMPT_STYLE_HINTS ''Detailed'' of
       Inl e \<Rightarrow> Inl e
     | Inr style_dflt \<Rightarrow>
    (let style_hint = dict_get PROMPT_STYLE_HINTS prompt_style style_dflt;
         block = control_block target_model target_model_hint prompt_style style_hint
                   output_language language_hint
     in (if clean_text \<noteq> [] then
           Inr (''Improve this prompt for image generation. '' @
                ''Keep intent, but increase quality and specificity:\<newline>\<newline>'' @
                clean_text @ ''\<newline>\<newline>'' @
                block)
         else
           Inr (''No input prompt was provided. '' @
                ''Generate a complete high-quality image-generation prompt from scratch.\<newline>\<newline>'' @
                block)))))))))"

section \<open>Subscripting decoded values\<close>

text \<open>
  \<open>seq[i]\<close> on a list or a string: a negative index counts from the end, an index out of
  range raises \<open>IndexError\<close> (here \<open>None\<close>).
\<close>

definition seq_index :: "'a list \<Rightarrow> int \<Rightarrow> 'a option" where
  "seq_index xs i =
     (let n = int (length xs); j = (if i < 0 then n + i else i)
      in if 0 \<le> j \<and> j < n then Some (xs ! nat j) else None)"

text \<open>
  \<open>v[k]\<close> on a decoded value. The keys of a decoded object are strings, so an integer
  subscript on a dict raises \<open>KeyError\<close>; a string subscript on a list or a string, and
  any subscript on \<open>None\<close>, a bool or a number, raises \<open>TypeError\<close>.
\<close>

fun py_getitem :: "'f py_value \<Rightarrow> key \<Rightarrow> py_error + 'f py_value" where
  "py_getitem (PyDict d) (KStr k) =
     (case map_of d k of None \<Rightarrow> Inl (KeyError (KStr k)) | Some v \<Rightarrow> Inr v)"
| "py_getitem (PyDict d) (KInt i) = Inl (KeyError (KInt i))"
| "py_getitem (PyList xs) (KInt i) =
     (case seq_index xs i of None \<Rightarrow> Inl IndexError | Some v \<Rightarrow> Inr v)"
| "py_getitem (PyList xs) (KStr k) = Inl TypeError"
| "py_getitem (PyStr s) (KInt i) =
     (case seq_index s i of None \<Rightarrow> Inl IndexError | Some c \<Rightarrow> Inr (PyStr [c]))"
| "py_getitem (PyStr s) (KStr k) = Inl TypeError"
| "py_getitem PyNone k = Inl TypeError"
| "py_getitem (PyBool b) k = Inl TypeError"
| "py_getitem (PyInt n) k = Inl TypeError"
| "py_getitem (PyFloat x) k = Inl TypeError"

section \<open>The network\<close>

text \<open>
  The request handed to \<open>urlopen\<close>. \<open>req_data\<close> holds the payload dict whose
  \<open>json.dumps(...).encode("utf-8")\<close> is the body of the request.
\<close>

record 'f request =
  req_url :: string
  req_data :: "'f py_value"
  req_headers :: "(string \<times> string) list"
  req_method :: string

type_synonym bytes = "8 word list"

text \<open>
  What \<open>resp.read().decode("utf-8")\<close> ends with on a response that \<open>urlopen\<close> returned:
  \<^item> \<open>Text raw\<close>: the body was read and its bytes are UTF-8 for the text \<open>raw\<close>;
  \<^item> \<open>NotUtf8 body msg\<close>: the bytes \<open>body\<close> were read and are not UTF-8; \<open>decode\<close>
    raised \<open>UnicodeDecodeError\<close> with the text \<open>msg\<close>;
  \<^item> \<open>ReadError msg\<close>: \<open>read\<close> raised an exception with the text \<open>msg\<close>.
\<close>

datatype body_outcome =
    Text string
  | NotUtf8 bytes string
  | ReadError string

text \<open>
  What \<open>e.read().decode("utf-8", errors="replace") if e.fp else ""\<close> ends with on an
  \<open>HTTPError\<close> \<open>e\<close>:
  \<^item> \<open>NoFp\<close>: \<open>e.fp\<close> is falsy;
  \<^item> \<open>ErrorText body\<close>: the error body was read, and decoded with undecodable bytes
    replaced it is the text \<open>body\<close>;
  \<^item> \<open>ErrorReadFails msg\<close>: \<open>e.read()\<close> raised an exception with the text \<open>msg\<close>.
\<close>

datatype error_body =
    NoFp
  | ErrorText string
  | ErrorReadFails string

text \<open>
  What the call of \<open>urlopen\<close> ends with:
  \<^item> \<open>Response b\<close>: it returned a response (the status is a success), whose body
    reads as \<open>b\<close>;
  \<^item> \<open>HTTPError code eb\<close>: it raised \<open>HTTPError\<close> with status \<open>code\<close>, whose body
    reads as \<open>eb\<close>;
  \<^item> \<open>URLError reason\<close>: it raised any other \<open>URLError\<close>, with the text of
    \<open>e.reason\<close>;
  \<^item> \<open>OtherException msg\<close>: it raised any other exception, with the text of \<open>e\<close>.
\<close>

datatype urlopen_outcome =
    Response body_outcome
  | HTTPError int error_body
  | URLError string
  | OtherException string

text \<open>
  How the remote end answers a request. \<open>Followed status r\<close> is a response with a
  redirect status (301, 302 or 303 on this POST) that \<open>urlopen\<close> follows by itself,
  \<open>r\<close> being the answer to the follow-up request; \<open>Final out\<close> is an answer that
  \<open>urlopen\<close> does not follow and ends with as \<open>out\<close>. The caller of \<open>urlopen\<close> sees
  only how the last answer ends.
\<close>

datatype reply =
    Final urlopen_outcome
  | Followed int reply

fun settle :: "reply \<Rightarrow> urlopen_outcome" where
  "settle (Final out) = out"
| "settle (Followed status r) = settle r"

text \<open>
  The world outside the process: how the remote end answers a request, and the
  requests issued so far, each with its timeout in seconds.
\<close>

record 'f world =
  respond :: "'f request \<Rightarrow> reply"
  issued :: "('f request \<times> nat) list"

definition urlopen :: "'f request \<Rightarrow> nat \<Rightarrow> 'f world \<Rightarrow> urlopen_outcome \<times> 'f world" where
  "urlopen req timeout w =
     (settle (respond w req), w\<lparr>issued := issued w @ [(req, timeout)]\<rparr>)"

section \<open>The API client\<close>

definition is_str :: "'f py_value \<Rightarrow> bool" where
  "is_str v = (case v of PyStr s \<Rightarrow> True | _ \<Rightarrow> False)"

definition str_of :: "'f py_value \<Rightarrow> string" where
  "str_of v = (case v of PyStr s \<Rightarrow> s | _ \<Rightarrow> [])"

text \<open>The subscript chain \<open>data["choices"][0]["message"]["content"]\<close>.\<close>

definition content_of :: "'f py_value \<Rightarrow> py_error + 'f py_value" where
  "content_of data =
     (case py_getitem data (KStr ''choices'') of Inl e \<Rightarrow> Inl e | Inr choices \<Rightarrow>
     (case py_getitem choices (KInt 0) of Inl e \<Rightarrow> Inl e | Inr choice \<Rightarrow>
     (case py_getitem choice (KStr ''message'') of Inl e \<Rightarrow> Inl e | Inr message \<Rightarrow>
        py_getitem message (KStr ''content''))))"

text \<open>
  The body of the second \<open>try\<close> block. \<open>json_loads\<close> is the library's decoder, \<open>None\<close>
  when it raises.
\<close>

definition read_content :: "(string \<Rightarrow> 'f py_value option) \<Rightarrow> string \<Rightarrow> py_error + string" where
  "read_content json_loads raw =
   (case json_loads raw of
      None \<Rightarrow> Inl JSONDecodeError
    | Some data \<Rightarrow>
       (case content_of data of
          Inl e \<Rightarrow> Inl e
        | Inr content \<Rightarrow>
           (if \<not> is_str content \<or> strip (str_of content) = [] then
              Inl (ValueError ''Empty response content.'')
            else Inr (strip (str_of content)))))"

text \<open>The second \<open>try\<close> block with its handler.\<close>

definition parse_response :: "(string \<Rightarrow> 'f py_value option) \<Rightarrow> string \<Rightarrow> py_error + string" where
  "parse_response json_loads raw =
   (case read_content json_loads raw of
      Inl e \<Rightarrow> Inl (RuntimeError (''Failed to parse DeepSeek response: '' @ raw))
    | Inr content \<Rightarrow> Inr content)"

definition build_payload :: "string \<Rightarrow> 'f \<Rightarrow> int \<Rightarrow> string \<Rightarrow> string \<Rightarrow> 'f py_value" where
  "build_payload model temperature max_tokens system_prompt user_message =
   PyDict
    [(''model'', PyStr model),
     (''messages'',
        PyList
         [PyDict [(''role'', PyStr ''system''), (''content'', PyStr system_prompt)],
          PyDict [(''role'', PyStr ''user''), (''content'', PyStr user_message)]]),
     (''temperature'', PyFloat temperature),
     (''max_tokens'', PyInt max_tokens)]"

definition build_request :: "string \<Rightarrow> 'f py_value \<Rightarrow> 'f request" where
  "build_request api_key payload =
   \<lparr>req_url = DEEPSEEK_API_URL,
    req_data = payload,
    req_headers = [(''Content-Type'', ''application/json''),
                   (''Authorization'', ''Bearer '' @ api_key)],
    req_method = ''POST''\<rparr>"

text \<open>The expression \<open>e.read().decode("utf-8", errors="replace") if e.fp else ""\<close>.\<close>

definition read_error_body :: "error_body \<Rightarrow> py_error + string" where
  "read_error_body eb =
     (case eb of
        NoFp \<Rightarrow> Inr []
      | ErrorText body \<Rightarrow> Inr body
      | ErrorReadFails msg \<Rightarrow> Inl (OtherError msg))"

text \<open>
  The first \<open>try\<close> block with its handlers. What \<open>e.read()\<close> raises inside the
  \<open>HTTPError\<close> handler is not caught by the handlers beside it and leaves the function
  as it is.
\<close>

definition call_deepseek ::
  "(string \<Rightarrow> 'f py_value option) \<Rightarrow> string \<Rightarrow> string \<Rightarrow> 'f \<Rightarrow> int \<Rightarrow> string \<Rightarrow> string \<Rightarrow>
   'f world \<Rightarrow> (py_error + string) \<times> 'f world" where
  "call_deepseek json_loads api_key model temperature max_tokens system_prompt user_message w =
   (let payload = build_payload model temperature max_tokens system_prompt user_message;
        req = build_request api_key payload
    in (case urlopen req 90 w of
          (Response (Text raw), w') \<Rightarrow> (parse_response json_loads raw, w')
        | (Response (NotUtf8 body msg), w') \<Rightarrow>
            (Inl (RuntimeError (''Unexpected DeepSeek API error: '' @ msg)), w')
        | (Response (ReadError msg), w') \<Rightarrow>
            (Inl (RuntimeError (''Unexpected DeepSeek API error: '' @ msg)), w')
        | (HTTPError code eb, w') \<Rightarrow>
            (case read_error_body eb of
               Inl e \<Rightarrow> (Inl e, w')
             | Inr body \<Rightarrow>
                 (Inl (RuntimeError (''DeepSeek API HTTP '' @ str_int code @ '': '' @ body)), w'))
        | (URLError reason, w') \<Rightarrow>
            (Inl (RuntimeError (''DeepSeek API connection error: '' @ reason)), w')
        | (OtherException msg, w') \<Rightarrow>
            (Inl (RuntimeError (''Unexpected DeepSeek API error: '' @ msg)), w')))"

section \<open>The top-level operation\<close>

text \<open>The returned dict \<open>{"ui": {"text": [preview]}, "result": (prompt, preview)}\<close>.\<close>

record node_output =
  ui_text :: "string list"
  result :: "string \<times> string"

text \<open>
  \<open>temperature\<close> and \<open>max_tokens\<close> arrive as the declared \<open>FLOAT\<close> and \<open>INT\<close>, on
  which \<open>float(...)\<close> and \<open>int(...)\<close> are the identity.
\<close>

definition generate_prompt ::
  "(string \<Rightarrow> 'f py_value option) \<Rightarrow> string option \<Rightarrow> string \<Rightarrow> 'f \<Rightarrow> int \<Rightarrow> string \<Rightarrow> string \<Rightarrow>
   string \<Rightarrow> string \<Rightarrow> string option \<Rightarrow> string option \<Rightarrow>
   'f world \<Rightarrow> (py_error + node_output) \<times> 'f world" where
  "generate_prompt json_loads api_key model temperature max_tokens output_language target_model
     prompt_style system_prompt_mode custom_system_prompt text w =
   (let api_key' = strip (or_empty api_key) in
    if api_key' = [] then (Inl (ValueError ''api_key is required.''), w)
    else
      (case resolve_system_prompt system_prompt_mode custom_system_prompt of
         Inl e \<Rightarrow> (Inl e, w)
       | Inr system_prompt \<Rightarrow>
      (case build_user_message text output_language target_model prompt_style of
         Inl e \<Rightarrow> (Inl e, w)
       | Inr user_message \<Rightarrow>
      (case call_deepseek json_loads api_key' model temperature max_tokens
              system_prompt user_message w of
         (Inl e, w') \<Rightarrow> (Inl e, w')
       | (Inr prompt, w') \<Rightarrow>
          (let preview = ''[model: '' @ target_model @ ''] [style: '' @ prompt_style @
                         ''] [lang: '' @ output_language @ '']\<newline>\<newline>'' @ prompt
           in (Inr \<lparr>ui_text = [preview], result = (prompt, preview)\<rparr>, w'))))))"

section \<open>The response the specification expects\<close>

text \<open>
  The specification's reading of a decoded response: the value found at
  \<open>choices[0].message.content\<close>, when the decoded value is an object whose \<open>choices\<close>
  field is an array whose first element is an object whose \<open>message\<close> field is an object
  with a \<open>content\<close> field; \<open>None\<close> when one of these fields is absent. It is compared
  below with what the subscripts of \<open>read_content\<close> compute.
\<close>

fun spec_content :: "'f py_value \<Rightarrow> 'f py_value option" where
  "spec_content (PyDict d) =
     (case map_of d ''choices'' of
        Some (PyList (PyDict choice # rest)) \<Rightarrow>
          (case map_of choice ''message'' of
             Some (PyDict message) \<Rightarrow> map_of message ''content''
           | _ \<Rightarrow> None)
      | _ \<Rightarrow> None)"
| "spec_content _ = None"

text \<open>The mock response body of the specification's example, and its decoded value.\<close>

definition mock_body :: string where
  \<open>mock_body = ''{"choices":[{"message":{"content":"X"}}]}''\<close>

text \<open>The text of the \<open>UnicodeDecodeError\<close> that decoding the single byte 0xFF raises.\<close>

definition not_utf8_message :: string where
  "not_utf8_message =
     CHR 0x27 # ''utf-8' codec can't decode byte 0xff in position 0: invalid start byte''"

definition mock_decoded :: "'f py_value" where
  "mock_decoded =
     PyDict [(''choices'', PyList [PyDict [(''message'', PyDict [(''content'', PyStr ''X'')])]])]"

text \<open>
  The number a string of decimal digits denotes, to compare with what \<open>str_int\<close>
  writes.
\<close>

definition is_digit :: "char \<Rightarrow> bool" where
  "is_digit c = (c \<in> set ''0123456789'')"

definition digit_value :: "char \<Rightarrow> nat" where
  "digit_value c = of_char c - of_char (CHR ''0'')"

definition decimal_value :: "string \<Rightarrow> nat" where
  "decimal_value s = foldl (\<lambda>acc c. 10 * acc + digit_value c) 0 s"

section \<open>Properties of \<open>strip\<close>\<close>

text \<open>
  \<open>strip\<close> returns the empty string exactly on whitespace-only input; otherwise it
  returns the input without its leading and trailing whitespace.
\<close>

lemma dropWhile_all_Nil: "dropWhile P xs = [] \<longleftrightarrow> (\<forall>x \<in> set xs. P x)"
  by (induction xs) auto

lemma dropWhile_twice_Nil:
  "dropWhile P (rev (dropWhile P xs)) = [] \<longleftrightarrow> dropWhile P xs = []"
proof
  assume a: "dropWhile P (rev (dropWhile P xs)) = []"
  show "dropWhile P xs = []"
  proof (rule ccontr)
    assume n: "dropWhile P xs \<noteq> []"
    then have "\<not> P (hd (dropWhile P xs))" by (rule hd_dropWhile)
    moreover have "hd (dropWhile P xs) \<in> set (rev (dropWhile P xs))" using n by simp
    ultimately show False using a unfolding dropWhile_all_Nil by blast
  qed
next
  assume e: "dropWhile P xs = []"
  show "dropWhile P (rev (dropWhile P xs)) = []" unfolding e by simp
qed

lemma strip_Nil_iff: "strip s = [] \<longleftrightarrow> list_all is_space s"
proof -
  have "strip s = [] \<longleftrightarrow> dropWhile is_space (rev (dropWhile is_space s)) = []"
    unfolding strip_def rstrip_def lstrip_def rev_is_Nil_conv ..
  also have "\<dots> \<longleftrightarrow> dropWhile is_space s = []"
    by (rule dropWhile_twice_Nil)
  also have "\<dots> \<longleftrightarrow> list_all is_space s"
    unfolding dropWhile_all_Nil list_all_iff ..
  finally show ?thesis .
qed

lemma strip_decomp:
  "s = takeWhile is_space s @ strip s @ rev (takeWhile is_space (rev (dropWhile is_space s)))"
proof -
  let ?m = "dropWhile is_space s"
  have "rev ?m = takeWhile is_space (rev ?m) @ dropWhile is_space (rev ?m)" by simp
  then have "?m = rev (dropWhile is_space (rev ?m)) @ rev (takeWhile is_space (rev ?m))"
    by (metis rev_append rev_rev_ident)
  then have "?m = strip s @ rev (takeWhile is_space (rev ?m))"
    by (simp add: strip_def rstrip_def lstrip_def)
  moreover have "s = takeWhile is_space s @ ?m" by simp
  ultimately show ?thesis by metis
qed

lemma strip_sublist: "sublist (strip s) s"
  using strip_decomp [of s] unfolding sublist_def by blast

lemma strip_ends:
  assumes "strip s \<noteq> []"
  shows "\<not> is_space (hd (strip s))" and "\<not> is_space (last (strip s))"
proof -
  let ?m = "dropWhile is_space s"
  from assms have m: "dropWhile is_space (rev ?m) \<noteq> []"
    by (simp add: strip_def rstrip_def lstrip_def)
  then have "\<not> is_space (hd (dropWhile is_space (rev ?m)))"
    by (rule hd_dropWhile)
  then show "\<not> is_space (last (strip s))"
    using m by (simp add: strip_def rstrip_def lstrip_def last_rev)
  have "?m \<noteq> []"
    using m dropWhile_twice_Nil [of is_space s] by blast
  then have h: "\<not> is_space (hd ?m)" by (rule hd_dropWhile)
  have "?m = strip s @ rev (takeWhile is_space (rev ?m))"
    using strip_decomp [of s] by (metis takeWhile_dropWhile_id same_append_eq)
  then have "hd ?m = hd (strip s)" using assms by (metis hd_append2)
  with h show "\<not> is_space (hd (strip s))" by simp
qed

section \<open>Properties of system prompt resolution\<close>

lemma improve_preset:
  "map_of SYSTEM_PROMPT_PRESETS ''Improve prompt (default)'' =
     Some (''You are an expert prompt engineer for image generation. '' @
       ''Rewrite and improve the user's prompt to be clearer, richer in visual details, '' @
       ''composition, lighting, style, quality tags, and camera/lens hints when relevant. '' @
       ''Return only the final improved prompt text.'')"
  by (simp add: SYSTEM_PROMPT_PRESETS_def)

lemma map_of_None_keys: "map_of d k = None \<longleftrightarrow> k \<notin> set (dict_keys d)"
  by (simp add: dict_keys_def map_of_eq_None_iff)

text \<open>
  Claim C1. For a mode other than \<open>"Custom"\<close>, the resolved system prompt is exactly the
  string the preset table holds for that mode; for a mode that is not a key of the table it
  is the string of the \<open>"Improve prompt (default)"\<close> entry. The custom override plays no
  part.
\<close>

theorem resolve_system_prompt_preset:
  assumes "system_prompt_mode \<noteq> ''Custom''"
  shows "(\<forall>canned. map_of SYSTEM_PROMPT_PRESETS system_prompt_mode = Some canned \<longrightarrow>
            resolve_system_prompt system_prompt_mode custom_system_prompt = Inr canned) \<and>
         (system_prompt_mode \<notin> set (dict_keys SYSTEM_PROMPT_PRESETS) \<longrightarrow>
            (\<exists>improve. map_of SYSTEM_PROMPT_PRESETS ''Improve prompt (default)'' = Some improve \<and>
               resolve_system_prompt system_prompt_mode custom_system_prompt = Inr improve))"
  using assms improve_preset
  by (simp add: resolve_system_prompt_def dict_getitem_def dict_get_def
        map_of_None_keys [symmetric])

theorem resolve_system_prompt_preset_witness:
  "''Anime style'' \<noteq> ''Custom'' \<and> ''Watercolor'' \<noteq> ''Custom'' \<and>
   ''Watercolor'' \<notin> set (dict_keys SYSTEM_PROMPT_PRESETS) \<and>
   resolve_system_prompt ''Anime style'' None =
     Inr (''You improve prompts for anime-style image generation. '' @
          ''Enhance character design, line style, palette, mood, and composition. '' @
          ''Return only the final prompt text.'') \<and>
   resolve_system_prompt ''Watercolor'' (Some ''ignored'') =
     Inr (''You are an expert prompt engineer for image generation. '' @
       ''Rewrite and improve the user's prompt to be clearer, richer in visual details, '' @
       ''composition, lighting, style, quality tags, and camera/lens hints when relevant. '' @
       ''Return only the final improved prompt text.'')"
proof -
  have a: "''Anime style'' \<noteq> ''Custom''" and w: "''Watercolor'' \<noteq> ''Custom''" by simp_all
  have k: "''Watercolor'' \<notin> set (dict_keys SYSTEM_PROMPT_PRESETS)"
    by (simp add: dict_keys_def SYSTEM_PROMPT_PRESETS_def)
  have m: "map_of SYSTEM_PROMPT_PRESETS ''Anime style'' =
     Some (''You improve prompts for anime-style image generation. '' @
          ''Enhance character design, line style, palette, mood, and composition. '' @
          ''Return only the final prompt text.'')"
    by (simp add: SYSTEM_PROMPT_PRESETS_def)
  show ?thesis
    using resolve_system_prompt_preset [OF a, of None]
      resolve_system_prompt_preset [OF w, of "Some ''ignored''"] a w k m improve_preset
    by simp
qed

text \<open>
  Claim C2. In mode \<open>"Custom"\<close>: when the override is absent, empty or made of whitespace
  only, resolution raises \<open>ValueError\<close>; otherwise it returns the override with the
  whitespace at both ends removed, which is not empty.
\<close>

theorem resolve_system_prompt_custom:
  "(list_all is_space (or_empty custom_system_prompt) \<longrightarrow>
      resolve_system_prompt ''Custom'' custom_system_prompt =
        Inl (ValueError ''system_prompt_mode is Custom, but custom_system_prompt is empty.'')) \<and>
   (\<not> list_all is_space (or_empty custom_system_prompt) \<longrightarrow>
      strip (or_empty custom_system_prompt) \<noteq> [] \<and>
      resolve_system_prompt ''Custom'' custom_system_prompt =
        Inr (strip (or_empty custom_system_prompt))) \<and>
   or_empty None = [] \<and> or_empty (Some []) = []"
  by (simp add: resolve_system_prompt_def strip_Nil_iff [symmetric] or_empty_def)

theorem resolve_system_prompt_custom_witness:
  "list_all is_space (or_empty (Some '' \<newline> '')) \<and>
   resolve_system_prompt ''Custom'' (Some '' \<newline> '') =
     Inl (ValueError ''system_prompt_mode is Custom, but custom_system_prompt is empty.'') \<and>
   resolve_system_prompt ''Custom'' None =
     Inl (ValueError ''system_prompt_mode is Custom, but custom_system_prompt is empty.'') \<and>
   \<not> list_all is_space (or_empty (Some ''  Be terse. '')) \<and>
   resolve_system_prompt ''Custom'' (Some ''  Be terse. '') = Inr ''Be terse.''"
proof -
  have s: "strip ''  Be terse. '' = ''Be terse.''"
    by (simp add: strip_def lstrip_def rstrip_def is_space_def)
  have b: "list_all is_space (or_empty (Some '' \<newline> ''))"
    by (simp add: or_empty_def is_space_def)
  have n: "list_all is_space (or_empty None)" by (simp add: or_empty_def)
  have t: "\<not> list_all is_space (or_empty (Some ''  Be terse. ''))"
    by (simp add: or_empty_def is_space_def)
  have o: "or_empty (Some ''  Be terse. '') = ''  Be terse. ''" by (simp add: or_empty_def)
  show ?thesis
    using resolve_system_prompt_custom [of "Some '' \<newline> ''"]
      resolve_system_prompt_custom [of None]
      resolve_system_prompt_custom [of "Some ''  Be terse. ''"] b n t
    by (simp only: o s) simp
qed

subsection \<open>The resolved system prompt is never empty\<close>

lemma preset_nonempty:
  "map_of SYSTEM_PROMPT_PRESETS m = Some v \<Longrightarrow> m \<noteq> ''Custom'' \<Longrightarrow> v \<noteq> []"
  by (auto simp: SYSTEM_PROMPT_PRESETS_def split: if_splits)

text \<open>
  Claim C9. Whenever resolution returns, the returned prompt is not the empty string. The
  table's \<open>"Custom"\<close> entry is the empty string, every other entry is non-empty, and the
  \<open>"Custom"\<close> mode never returns the empty string because the custom branch takes it.
\<close>

theorem resolve_system_prompt_nonempty:
  "(\<forall>prompt. resolve_system_prompt system_prompt_mode custom_system_prompt = Inr prompt \<longrightarrow>
       prompt \<noteq> []) \<and>
   map_of SYSTEM_PROMPT_PRESETS ''Custom'' = Some [] \<and>
   (\<forall>m v. map_of SYSTEM_PROMPT_PRESETS m = Some v \<and> m \<noteq> ''Custom'' \<longrightarrow> v \<noteq> []) \<and>
   (\<forall>c. resolve_system_prompt ''Custom'' c \<noteq> Inr [])"
proof (intro conjI allI impI)
  fix prompt
  assume r: "resolve_system_prompt system_prompt_mode custom_system_prompt = Inr prompt"
  show "prompt \<noteq> []"
  proof (cases "system_prompt_mode = ''Custom''")
    case True
    with r show ?thesis
      by (auto simp: resolve_system_prompt_def Let_def split: if_splits)
  next
    case False
    show ?thesis
    proof (cases "map_of SYSTEM_PROMPT_PRESETS system_prompt_mode")
      case None
      with r False improve_preset show ?thesis
        by (auto simp: resolve_system_prompt_def dict_getitem_def dict_get_def)
    next
      case (Some v)
      with r False improve_preset have "prompt = v"
        by (auto simp: resolve_system_prompt_def dict_getitem_def dict_get_def)
      with Some False preset_nonempty show ?thesis by blast
    qed
  qed
next
  show "map_of SYSTEM_PROMPT_PRESETS ''Custom'' = Some []"
    by (simp add: SYSTEM_PROMPT_PRESETS_def)
next
  fix m v assume "map_of SYSTEM_PROMPT_PRESETS m = Some v \<and> m \<noteq> ''Custom''"
  then show "v \<noteq> []" using preset_nonempty by blast
next
  fix c show "resolve_system_prompt ''Custom'' c \<noteq> Inr []"
    by (simp add: resolve_system_prompt_def Let_def)
qed

theorem resolve_system_prompt_nonempty_witness:
  "resolve_system_prompt ''Custom'' (Some '' go '') = Inr ''go'' \<and> ''go'' \<noteq> [] \<and>
   map_of SYSTEM_PROMPT_PRESETS ''Cinematic style'' =
     Some (''You improve prompts in cinematic style. '' @
       ''Enhance storytelling, framing, mood, color grading, lighting direction, and shot type. '' @
       ''Return only the final prompt text.'') \<and>
   ''Cinematic style'' \<noteq> ''Custom'' \<and>
   ''You improve prompts in cinematic style. '' @
       ''Enhance storytelling, framing, mood, color grading, lighting direction, and shot type. '' @
       ''Return only the final prompt text.'' \<noteq> []"
proof -
  have r: "resolve_system_prompt ''Custom'' (Some '' go '') = Inr ''go''"
    by (simp add: resolve_system_prompt_def or_empty_def strip_def lstrip_def rstrip_def is_space_def)
  have m: "map_of SYSTEM_PROMPT_PRESETS ''Cinematic style'' =
     Some (''You improve prompts in cinematic style. '' @
       ''Enhance storytelling, framing, mood, color grading, lighting direction, and shot type. '' @
       ''Return only the final prompt text.'')"
    by (simp add: SYSTEM_PROMPT_PRESETS_def)
  have c: "''Cinematic style'' \<noteq> ''Custom''" by simp
  from resolve_system_prompt_nonempty [of "''Custom''" "Some '' go ''"] r
  have 1: "''go'' \<noteq> []" by blast
  from resolve_system_prompt_nonempty [of "''Custom''" None] m c
  have 2: "''You improve prompts in cinematic style. '' @
       ''Enhance storytelling, framing, mood, color grading, lighting direction, and shot type. '' @
       ''Return only the final prompt text.'' \<noteq> []" by blast
  from r 1 m c 2 show ?thesis by blast
qed

section \<open>Properties of the user message\<close>

lemma english_hint:
  "map_of LANGUAGE_HINTS ''english'' = Some ''Return the final prompt in English only.''"
  by (simp add: LANGUAGE_HINTS_def)

lemma sdxl_hint:
  "map_of TARGET_MODEL_HINTS ''sdxl'' =
     Some ''Use SDXL-friendly descriptive style with clear subject, style, composition, and quality cues.''"
  by (simp add: TARGET_MODEL_HINTS_def)

lemma detailed_hint:
  "map_of PROMPT_STYLE_HINTS ''Detailed'' = Some ''Provide a detailed, information-rich prompt.''"
  by (simp add: PROMPT_STYLE_HINTS_def)

lemma build_user_message_eq:
  "build_user_message text output_language target_model prompt_style =
   Inr ((if strip (or_empty text) \<noteq> [] then
           ''Improve this prompt for image generation. '' @
           ''Keep intent, but increase quality and specificity:\<newline>\<newline>'' @
           strip (or_empty text) @ ''\<newline>\<newline>''
         else
           ''No input prompt was provided. '' @
           ''Generate a complete high-quality image-generation prompt from scratch.\<newline>\<newline>'') @
        control_block target_model
          (dict_get TARGET_MODEL_HINTS target_model
             ''Use SDXL-friendly descriptive style with clear subject, style, composition, and quality cues.'')
          prompt_style
          (dict_get PROMPT_STYLE_HINTS prompt_style ''Provide a detailed, information-rich prompt.'')
          output_language
          (dict_get LANGUAGE_HINTS output_language ''Return the final prompt in English only.''))"
  by (simp add: build_user_message_def dict_getitem_def english_hint sdxl_hint detailed_hint Let_def)

lemma control_block_lines:
  "control_block tm tmh st sh l lh =
     ''Generation requirements:\<newline>'' @
     (''- Target image model: '' @ tm @ ''\<newline>'') @
     (''- Model adaptation note: '' @ tmh @ ''\<newline>'') @
     (''- Prompt style: '' @ st @ ''. '' @ sh @ ''\<newline>'') @
     (''- Output language: '' @ l @ ''. '' @ lh @ ''\<newline>'') @
     ''- Return only the final prompt text with no explanation.''"
  by (simp add: control_block_def)

lemma sublist_in_tail: "sublist xs ys \<Longrightarrow> sublist xs (zs @ ys)"
  by (metis sublist_append_leftI sublist_order.order_trans)

lemma control_block_prefix:
  "prefix ''Generation requirements:\<newline>'' (control_block tm tmh st sh l lh)"
  unfolding control_block_lines by (rule prefixI) (rule refl)

lemma control_block_target_line:
  "sublist (''\<newline>- Target image model: '' @ tm @ ''\<newline>'') (control_block tm tmh st sh l lh)"
proof -
  have "control_block tm tmh st sh l lh =
      ''Generation requirements:'' @ (''\<newline>- Target image model: '' @ tm @ ''\<newline>'') @
      ((''- Model adaptation note: '' @ tmh @ ''\<newline>'') @
       (''- Prompt style: '' @ st @ ''. '' @ sh @ ''\<newline>'') @
       (''- Output language: '' @ l @ ''. '' @ lh @ ''\<newline>'') @
       ''- Return only the final prompt text with no explanation.'')"
    by (simp add: control_block_def)
  then show ?thesis by (metis sublist_appendI)
qed

lemma control_block_model_line:
  "sublist (''- Model adaptation note: '' @ tmh @ ''\<newline>'') (control_block tm tmh st sh l lh)"
  unfolding control_block_lines by (intro sublist_in_tail sublist_append_rightI)

lemma control_block_style_line:
  "sublist (''- Prompt style: '' @ st @ ''. '' @ sh @ ''\<newline>'') (control_block tm tmh st sh l lh)"
  unfolding control_block_lines by (intro sublist_in_tail sublist_append_rightI)

lemma control_block_language_line:
  "sublist (''- Output language: '' @ l @ ''. '' @ lh @ ''\<newline>'') (control_block tm tmh st sh l lh)"
  unfolding control_block_lines by (intro sublist_in_tail sublist_append_rightI)

lemma a_cat_message:
  "build_user_message (Some ''a cat'') ''english'' ''sdxl'' ''Detailed'' =
   Inr (''Improve this prompt for image generation. '' @
        ''Keep intent, but increase quality and specificity:\<newline>\<newline>'' @
        ''a cat\<newline>\<newline>'' @
        ''Generation requirements:\<newline>'' @
        ''- Target image model: sdxl\<newline>'' @
        ''- Model adaptation note: Use SDXL-friendly descriptive style with clear subject, style, composition, and quality cues.\<newline>'' @
        ''- Prompt style: Detailed. Provide a detailed, information-rich prompt.\<newline>'' @
        ''- Output language: english. Return the final prompt in English only.\<newline>'' @
        ''- Return only the final prompt text with no explanation.'')"
proof -
  have s: "strip (or_empty (Some ''a cat'')) = ''a cat''"
    by (simp add: or_empty_def strip_def lstrip_def rstrip_def is_space_def)
  show ?thesis
    unfolding build_user_message_eq s
    by (simp add: dict_get_def english_hint sdxl_hint detailed_hint control_block_def)
qed

lemma dict_get_miss: "k \<notin> set (dict_keys d) \<Longrightarrow> dict_get d k dflt = dflt"
  by (simp add: dict_get_def dict_keys_def map_of_eq_None_iff [THEN iffD2])

lemma target_model_choices_keys: "set target_model_choices = set (dict_keys TARGET_MODEL_HINTS)"
  by (simp add: target_model_choices_def dict_keys_def TARGET_MODEL_HINTS_def)

lemma prompt_style_choices_keys: "set prompt_style_choices = set (dict_keys PROMPT_STYLE_HINTS)"
  by (simp add: prompt_style_choices_def dict_keys_def PROMPT_STYLE_HINTS_def)

lemma output_language_choices_keys: "set output_language_choices = set (dict_keys LANGUAGE_HINTS)"
  by (simp add: output_language_choices_def dict_keys_def LANGUAGE_HINTS_def)

text \<open>
  Claim C4. The user message is built from the stripped input text. When the stripped text
  is not empty, the message holds it, followed by a blank line and the requirements block,
  and the block starts with its heading and has the line \<open>- Target image model: <target>\<close>.
  When the stripped text is empty, the message is the fixed "from scratch" instruction
  followed by the block, and it is the same message as for an absent text, so nothing of
  the input text is in it. For text \<open>"a cat"\<close>, \<open>english\<close>, \<open>sdxl\<close>, \<open>Detailed\<close> the
  message contains \<open>"a cat"\<close> and the line \<open>- Target image model: sdxl\<close>.
\<close>

theorem build_user_message_contents:
  "(strip (or_empty text) \<noteq> [] \<longrightarrow>
      (\<exists>preamble block.
          build_user_message text output_language target_model prompt_style =
            Inr (preamble @ strip (or_empty text) @ ''\<newline>\<newline>'' @ block) \<and>
          prefix ''Generation requirements:\<newline>'' block \<and>
          sublist (''\<newline>- Target image model: '' @ target_model @ ''\<newline>'') block)) \<and>
   (strip (or_empty text) = [] \<longrightarrow>
      (\<exists>block.
          build_user_message text output_language target_model prompt_style =
            Inr (''No input prompt was provided. '' @
                 ''Generate a complete high-quality image-generation prompt from scratch.'' @
                 ''\<newline>\<newline>'' @ block) \<and>
          prefix ''Generation requirements:\<newline>'' block) \<and>
      build_user_message text output_language target_model prompt_style =
        build_user_message None output_language target_model prompt_style) \<and>
   (\<exists>msg. build_user_message (Some ''a cat'') ''english'' ''sdxl'' ''Detailed'' = Inr msg \<and>
      sublist ''a cat'' msg \<and> sublist ''\<newline>- Target image model: sdxl\<newline>'' msg)"
proof (intro conjI impI)
  assume t: "strip (or_empty text) \<noteq> []"
  let ?block = "control_block target_model
          (dict_get TARGET_MODEL_HINTS target_model
             ''Use SDXL-friendly descriptive style with clear subject, style, composition, and quality cues.'')
          prompt_style
          (dict_get PROMPT_STYLE_HINTS prompt_style ''Provide a detailed, information-rich prompt.'')
          output_language
          (dict_get LANGUAGE_HINTS output_language ''Return the final prompt in English only.'')"
  let ?pre = "''Improve this prompt for image generation. '' @
           ''Keep intent, but increase quality and specificity:\<newline>\<newline>''"
  have "build_user_message text output_language target_model prompt_style =
            Inr (?pre @ strip (or_empty text) @ ''\<newline>\<newline>'' @ ?block)"
    unfolding build_user_message_eq using t by simp
  moreover have "prefix ''Generation requirements:\<newline>'' ?block"
    by (rule control_block_prefix)
  moreover have "sublist (''\<newline>- Target image model: '' @ target_model @ ''\<newline>'') ?block"
    by (rule control_block_target_line)
  ultimately show "\<exists>preamble block.
          build_user_message text output_language target_model prompt_style =
            Inr (preamble @ strip (or_empty text) @ ''\<newline>\<newline>'' @ block) \<and>
          prefix ''Generation requirements:\<newline>'' block \<and>
          sublist (''\<newline>- Target image model: '' @ target_model @ ''\<newline>'') block"
    by blast
next
  assume t: "strip (or_empty text) = []"
  let ?block = "control_block target_model
          (dict_get TARGET_MODEL_HINTS target_model
             ''Use SDXL-friendly descriptive style with clear subject, style, composition, and quality cues.'')
          prompt_style
          (dict_get PROMPT_STYLE_HINTS prompt_style ''Provide a detailed, information-rich prompt.'')
          output_language
          (dict_get LANGUAGE_HINTS output_language ''Return the final prompt in English only.'')"
  have "build_user_message text output_language target_model prompt_style =
            Inr (''No input prompt was provided. '' @
                 ''Generate a complete high-quality image-generation prompt from scratch.'' @
                 ''\<newline>\<newline>'' @ ?block)"
    unfolding build_user_message_eq using t by simp
  moreover have "prefix ''Generation requirements:\<newline>'' ?block"
    by (rule control_block_prefix)
  ultimately show "\<exists>block.
          build_user_message text output_language target_model prompt_style =
            Inr (''No input prompt was provided. '' @
                 ''Generate a complete high-quality image-generation prompt from scratch.'' @
                 ''\<newline>\<newline>'' @ block) \<and>
          prefix ''Generation requirements:\<newline>'' block"
    by blast
  have n: "strip (or_empty None) = []"
    by (simp add: or_empty_def strip_def lstrip_def rstrip_def)
  show "build_user_message text output_language target_model prompt_style =
        build_user_message None output_language target_model prompt_style"
    unfolding build_user_message_eq t n ..
next
  let ?rest = "''Generation requirements:'' @ ''\<newline>- Target image model: sdxl\<newline>'' @
        (''- Model adaptation note: Use SDXL-friendly descriptive style with clear subject, style, composition, and quality cues.\<newline>'' @
        ''- Prompt style: Detailed. Provide a detailed, information-rich prompt.\<newline>'' @
        ''- Output language: english. Return the final prompt in English only.\<newline>'' @
        ''- Return only the final prompt text with no explanation.'')"
  let ?pre = "''Improve this prompt for image generation. '' @
        ''Keep intent, but increase quality and specificity:\<newline>\<newline>''"
  let ?msg = "?pre @ ''a cat'' @ (''\<newline>\<newline>'' @ ?rest)"
  have "build_user_message (Some ''a cat'') ''english'' ''sdxl'' ''Detailed'' = Inr ?msg"
    unfolding a_cat_message by simp
  moreover have "sublist ''a cat'' ?msg" by (rule sublist_appendI)
  moreover have "sublist ''\<newline>- Target image model: sdxl\<newline>'' ?msg"
    by (intro sublist_in_tail sublist_appendI)
  ultimately show "\<exists>msg. build_user_message (Some ''a cat'') ''english'' ''sdxl'' ''Detailed'' = Inr msg \<and>
      sublist ''a cat'' msg \<and> sublist ''\<newline>- Target image model: sdxl\<newline>'' msg"
    by blast
qed

theorem build_user_message_contents_witness:
  "strip (or_empty (Some '' a red fox ''))  \<noteq> [] \<and>
   (\<exists>preamble block.
       build_user_message (Some '' a red fox '') ''chinese'' ''seedream 4.5'' ''Short'' =
         Inr (preamble @ ''a red fox'' @ ''\<newline>\<newline>'' @ block) \<and>
       prefix ''Generation requirements:\<newline>'' block \<and>
       sublist (''\<newline>- Target image model: '' @ ''seedream 4.5'' @ ''\<newline>'') block) \<and>
   strip (or_empty (Some ''  '')) = [] \<and>
   build_user_message (Some ''  '') ''chinese'' ''seedream 4.5'' ''Short'' =
     build_user_message None ''chinese'' ''seedream 4.5'' ''Short''"
proof -
  have f: "strip (or_empty (Some '' a red fox '')) = ''a red fox''"
    by (simp add: or_empty_def strip_def lstrip_def rstrip_def is_space_def)
  have b: "strip (or_empty (Some ''  '')) = []"
    by (simp add: or_empty_def strip_def lstrip_def rstrip_def is_space_def)
  have n: "strip (or_empty (Some '' a red fox '')) \<noteq> []" unfolding f by simp
  from build_user_message_contents [of "Some '' a red fox ''" "''chinese''" "''seedream 4.5''" "''Short''"] n
  have 1: "\<exists>preamble block.
       build_user_message (Some '' a red fox '') ''chinese'' ''seedream 4.5'' ''Short'' =
         Inr (preamble @ strip (or_empty (Some '' a red fox '')) @ ''\<newline>\<newline>'' @ block) \<and>
       prefix ''Generation requirements:\<newline>'' block \<and>
       sublist (''\<newline>- Target image model: '' @ ''seedream 4.5'' @ ''\<newline>'') block"
    by blast
  from build_user_message_contents [of "Some ''  ''" "''chinese''" "''seedream 4.5''" "''Short''"] b
  have 2: "build_user_message (Some ''  '') ''chinese'' ''seedream 4.5'' ''Short'' =
     build_user_message None ''chinese'' ''seedream 4.5'' ''Short''"
    by blast
  from 1 2 n b show ?thesis unfolding f by blast
qed

text \<open>
  Claim C7. Building the user message returns a string for every text (absent or not),
  language, target model and style: the three subscripts that fetch the fallback hints
  never raise. For a language, target model or style outside the declared choices the
  block carries the \<open>english\<close>, \<open>sdxl\<close> and \<open>Detailed\<close> hint respectively.
\<close>

theorem build_user_message_total:
  "\<exists>msg. build_user_message text output_language target_model prompt_style = Inr msg \<and>
     (output_language \<notin> set output_language_choices \<longrightarrow>
        sublist (''- Output language: '' @ output_language @ ''. '' @
                 ''Return the final prompt in English only.'' @ ''\<newline>'') msg) \<and>
     (target_model \<notin> set target_model_choices \<longrightarrow>
        sublist (''- Model adaptation note: '' @
                 ''Use SDXL-friendly descriptive style with clear subject, style, composition, and quality cues.'' @
                 ''\<newline>'') msg) \<and>
     (prompt_style \<notin> set prompt_style_choices \<longrightarrow>
        sublist (''- Prompt style: '' @ prompt_style @ ''. '' @
                 ''Provide a detailed, information-rich prompt.'' @ ''\<newline>'') msg)"
proof -
  let ?eh = "''Return the final prompt in English only.''"
  let ?sh = "''Use SDXL-friendly descriptive style with clear subject, style, composition, and quality cues.''"
  let ?dh = "''Provide a detailed, information-rich prompt.''"
  let ?block = "control_block target_model (dict_get TARGET_MODEL_HINTS target_model ?sh)
          prompt_style (dict_get PROMPT_STYLE_HINTS prompt_style ?dh)
          output_language (dict_get LANGUAGE_HINTS output_language ?eh)"
  obtain head where m: "build_user_message text output_language target_model prompt_style =
      Inr (head @ ?block)"
    using build_user_message_eq by blast
  have "sublist (''- Output language: '' @ output_language @ ''. '' @ ?eh @ ''\<newline>'') (head @ ?block)"
    if "output_language \<notin> set output_language_choices"
  proof -
    from that have "dict_get LANGUAGE_HINTS output_language ?eh = ?eh"
      unfolding output_language_choices_keys by (rule dict_get_miss)
    then show ?thesis
      using control_block_language_line [THEN sublist_in_tail] by metis
  qed
  moreover have "sublist (''- Model adaptation note: '' @ ?sh @ ''\<newline>'') (head @ ?block)"
    if "target_model \<notin> set target_model_choices"
  proof -
    from that have "dict_get TARGET_MODEL_HINTS target_model ?sh = ?sh"
      unfolding target_model_choices_keys by (rule dict_get_miss)
    then show ?thesis
      using control_block_model_line [THEN sublist_in_tail] by metis
  qed
  moreover have "sublist (''- Prompt style: '' @ prompt_style @ ''. '' @ ?dh @ ''\<newline>'') (head @ ?block)"
    if "prompt_style \<notin> set prompt_style_choices"
  proof -
    from that have "dict_get PROMPT_STYLE_HINTS prompt_style ?dh = ?dh"
      unfolding prompt_style_choices_keys by (rule dict_get_miss)
    then show ?thesis
      using control_block_style_line [THEN sublist_in_tail] by metis
  qed
  ultimately show ?thesis using m by blast
qed

theorem build_user_message_total_witness:
  "''klingon'' \<notin> set output_language_choices \<and>
   ''dalle'' \<notin> set target_model_choices \<and>
   ''Baroque'' \<notin> set prompt_style_choices \<and>
   (\<exists>msg. build_user_message None ''klingon'' ''dalle'' ''Baroque'' = Inr msg \<and>
      sublist (''- Output language: '' @ ''klingon'' @ ''. '' @
               ''Return the final prompt in English only.'' @ ''\<newline>'') msg \<and>
      sublist (''- Model adaptation note: '' @
               ''Use SDXL-friendly descriptive style with clear subject, style, composition, and quality cues.'' @
               ''\<newline>'') msg \<and>
      sublist (''- Prompt style: '' @ ''Baroque'' @ ''. '' @
               ''Provide a detailed, information-rich prompt.'' @ ''\<newline>'') msg)"
proof -
  have l: "''klingon'' \<notin> set output_language_choices"
    by (simp add: output_language_choices_def)
  have t: "''dalle'' \<notin> set target_model_choices"
    by (simp add: target_model_choices_def)
  have p: "''Baroque'' \<notin> set prompt_style_choices"
    by (simp add: prompt_style_choices_def)
  from build_user_message_total [of None "''klingon''" "''dalle''" "''Baroque''"] l t p
  show ?thesis by blast
qed

section \<open>The schema and the tables\<close>

text \<open>
  Claim C8. Each of the seven target-model choices, five style choices, two language
  choices and six system-prompt modes of the declared schema is a key of its table, and
  the fallback key of each table (\<open>sdxl\<close>, \<open>Detailed\<close>, \<open>english\<close>,
  \<open>Improve prompt (default)\<close>) is present, so the subscript that fetches it succeeds.
\<close>

theorem choices_have_entries:
  "set target_model_choices \<subseteq> set (dict_keys TARGET_MODEL_HINTS) \<and>
   length target_model_choices = 7 \<and> distinct target_model_choices \<and>
   set prompt_style_choices \<subseteq> set (dict_keys PROMPT_STYLE_HINTS) \<and>
   length prompt_style_choices = 5 \<and> distinct prompt_style_choices \<and>
   set output_language_choices \<subseteq> set (dict_keys LANGUAGE_HINTS) \<and>
   length output_language_choices = 2 \<and> distinct output_language_choices \<and>
   set system_prompt_mode_choices \<subseteq> set (dict_keys SYSTEM_PROMPT_PRESETS) \<and>
   length system_prompt_mode_choices = 6 \<and> distinct system_prompt_mode_choices \<and>
   dict_getitem TARGET_MODEL_HINTS ''sdxl'' =
     Inr ''Use SDXL-friendly descriptive style with clear subject, style, composition, and quality cues.'' \<and>
   dict_getitem PROMPT_STYLE_HINTS ''Detailed'' = Inr ''Provide a detailed, information-rich prompt.'' \<and>
   dict_getitem LANGUAGE_HINTS ''english'' = Inr ''Return the final prompt in English only.'' \<and>
   (\<exists>improve. dict_getitem SYSTEM_PROMPT_PRESETS ''Improve prompt (default)'' = Inr improve)"
proof (intro conjI)
  show "set target_model_choices \<subseteq> set (dict_keys TARGET_MODEL_HINTS)"
    unfolding target_model_choices_keys ..
  show "set prompt_style_choices \<subseteq> set (dict_keys PROMPT_STYLE_HINTS)"
    unfolding prompt_style_choices_keys ..
  show "set output_language_choices \<subseteq> set (dict_keys LANGUAGE_HINTS)"
    unfolding output_language_choices_keys ..
  show "set system_prompt_mode_choices \<subseteq> set (dict_keys SYSTEM_PROMPT_PRESETS)"
    unfolding system_prompt_mode_choices_def ..
  show "length target_model_choices = 7" by (simp add: target_model_choices_def)
  show "length prompt_style_choices = 5" by (simp add: prompt_style_choices_def)
  show "length output_language_choices = 2" by (simp add: output_language_choices_def)
  show "length system_prompt_mode_choices = 6"
    by (simp add: system_prompt_mode_choices_def dict_keys_def SYSTEM_PROMPT_PRESETS_def)
  show "distinct system_prompt_mode_choices"
    by (simp add: system_prompt_mode_choices_def dict_keys_def SYSTEM_PROMPT_PRESETS_def)
  show "distinct target_model_choices" by (simp add: target_model_choices_def)
  show "distinct prompt_style_choices" by (simp add: prompt_style_choices_def)
  show "distinct output_language_choices" by (simp add: output_language_choices_def)
  show "dict_getitem TARGET_MODEL_HINTS ''sdxl'' =
     Inr ''Use SDXL-friendly descriptive style with clear subject, style, composition, and quality cues.''"
    by (simp add: dict_getitem_def sdxl_hint)
  show "dict_getitem PROMPT_STYLE_HINTS ''Detailed'' = Inr ''Provide a detailed, information-rich prompt.''"
    by (simp add: dict_getitem_def detailed_hint)
  show "dict_getitem LANGUAGE_HINTS ''english'' = Inr ''Return the final prompt in English only.''"
    by (simp add: dict_getitem_def english_hint)
  show "\<exists>improve. dict_getitem SYSTEM_PROMPT_PRESETS ''Improve prompt (default)'' = Inr improve"
    by (simp add: dict_getitem_def SYSTEM_PROMPT_PRESETS_def)
qed

section \<open>Properties of \<open>str_int\<close>\<close>

text \<open>
  For a number that is not negative, \<open>str_int\<close> writes decimal digits only, they denote
  the number, and the first is not a zero unless it is the only one.
\<close>

lemma digit_char_numerals:
  "digit_char 0 = CHR ''0''" "digit_char 1 = CHR ''1''" "digit_char 2 = CHR ''2''"
  "digit_char 3 = CHR ''3''" "digit_char 4 = CHR ''4''" "digit_char 5 = CHR ''5''"
  "digit_char 6 = CHR ''6''" "digit_char 7 = CHR ''7''" "digit_char 8 = CHR ''8''"
  "digit_char 9 = CHR ''9''" "digit_char (Suc 0) = CHR ''1''"
  by code_simp+

lemma below_ten: "(d::nat) < 10 \<Longrightarrow> d \<in> {0, 1, 2, 3, 4, 5, 6, 7, 8, 9}"
  by auto

lemma digit_char_digit: "d < 10 \<Longrightarrow> is_digit (digit_char d)"
  using below_ten [of d] by (auto simp: digit_char_numerals is_digit_def)

lemma digit_char_value: "d < 10 \<Longrightarrow> digit_value (digit_char d) = d"
  using below_ten [of d] by (auto simp: digit_char_numerals digit_value_def)

lemma digit_char_zero: "d < 10 \<Longrightarrow> digit_char d = CHR ''0'' \<longleftrightarrow> d = 0"
  using below_ten [of d] by (auto simp: digit_char_numerals)

lemma decimal_value_snoc: "decimal_value (s @ [c]) = 10 * decimal_value s + digit_value c"
  by (simp add: decimal_value_def)

lemma str_nat_nonempty: "str_nat n \<noteq> []"
  by (subst str_nat.simps) simp

lemma str_nat_digits: "list_all is_digit (str_nat n)"
proof (induction n rule: str_nat.induct)
  case (1 n)
  show ?case
  proof (cases "n < 10")
    case True
    then show ?thesis by (subst str_nat.simps) (simp add: digit_char_digit)
  next
    case False
    with 1 show ?thesis by (subst str_nat.simps) (simp add: digit_char_digit)
  qed
qed

lemma str_nat_value: "decimal_value (str_nat n) = n"
proof (induction n rule: str_nat.induct)
  case (1 n)
  show ?case
  proof (cases "n < 10")
    case True
    then show ?thesis
      by (subst str_nat.simps) (simp add: decimal_value_def digit_char_value)
  next
    case False
    with 1 have "decimal_value (str_nat (n div 10)) = n div 10" by simp
    with False show ?thesis
      by (subst str_nat.simps) (simp add: decimal_value_snoc digit_char_value)
  qed
qed

lemma str_nat_hd: "0 < n \<Longrightarrow> hd (str_nat n) \<noteq> CHR ''0''"
proof (induction n rule: str_nat.induct)
  case (1 n)
  show ?case
  proof (cases "n < 10")
    case True
    with 1(2) show ?thesis by (subst str_nat.simps) (simp add: digit_char_zero)
  next
    case False
    then have "0 < n div 10" by simp
    with 1(1) False have "hd (str_nat (n div 10)) \<noteq> CHR ''0''" by simp
    with False show ?thesis
      by (subst str_nat.simps) (simp add: str_nat_nonempty)
  qed
qed

lemma str_nat_single: "1 < length (str_nat n) \<Longrightarrow> 0 < n"
  by (cases "n = 0") (simp_all add: str_nat.simps)

lemma str_int_decimal:
  assumes "0 \<le> code"
  shows "list_all is_digit (str_int code)" and "decimal_value (str_int code) = nat code"
    and "1 < length (str_int code) \<Longrightarrow> hd (str_int code) \<noteq> CHR ''0''"
proof -
  from assms have e: "str_int code = str_nat (nat code)" by (simp add: str_int_def)
  show "list_all is_digit (str_int code)" unfolding e by (rule str_nat_digits)
  show "decimal_value (str_int code) = nat code" unfolding e by (rule str_nat_value)
  show "hd (str_int code) \<noteq> CHR ''0''" if "1 < length (str_int code)"
    using that unfolding e by (intro str_nat_hd str_nat_single)
qed

section \<open>Properties of the API client\<close>

subsection \<open>The subscript chain against the expected response shape\<close>

lemma seq_index_0: "seq_index xs 0 = (case xs of [] \<Rightarrow> None | x # _ \<Rightarrow> Some x)"
  by (cases xs) (simp_all add: seq_index_def)

lemma getitem_str_dict:
  "py_getitem v (KStr k) = Inr x \<longleftrightarrow> (\<exists>d. v = PyDict d \<and> map_of d k = Some x)"
  by (cases v) (auto split: option.splits)

lemma getitem_0_dict:
  "py_getitem v (KInt 0) = Inr (PyDict c) \<longleftrightarrow> (\<exists>rest. v = PyList (PyDict c # rest))"
  by (cases v) (auto simp: seq_index_0 split: option.splits list.splits)

lemma content_of_spec: "content_of data = Inr v \<longleftrightarrow> spec_content data = Some v"
proof
  assume "content_of data = Inr v"
  then obtain choices choice message where
      1: "py_getitem data (KStr ''choices'') = Inr choices" and
      2: "py_getitem choices (KInt 0) = Inr choice" and
      3: "py_getitem choice (KStr ''message'') = Inr message" and
      4: "py_getitem message (KStr ''content'') = Inr v"
    by (auto simp: content_of_def split: sum.splits)
  from 4 obtain m where m: "message = PyDict m" "map_of m ''content'' = Some v"
    unfolding getitem_str_dict by blast
  from 3 obtain c where c: "choice = PyDict c" "map_of c ''message'' = Some message"
    unfolding getitem_str_dict by blast
  from 2 c(1) have "py_getitem choices (KInt 0) = Inr (PyDict c)" by simp
  then obtain rest where r: "choices = PyList (PyDict c # rest)"
    unfolding getitem_0_dict by blast
  from 1 obtain d where d: "data = PyDict d" "map_of d ''choices'' = Some choices"
    unfolding getitem_str_dict by blast
  show "spec_content data = Some v" using d r c m by simp
next
  assume s: "spec_content data = Some v"
  then obtain d where d: "data = PyDict d" by (cases data) simp_all
  with s obtain c rest where r: "map_of d ''choices'' = Some (PyList (PyDict c # rest))"
    by (auto split: option.splits py_value.splits list.splits)
  with s d obtain m where m: "map_of c ''message'' = Some (PyDict m)"
    by (auto split: option.splits py_value.splits)
  with s d r have v: "map_of m ''content'' = Some v" by simp
  show "content_of data = Inr v"
    using d r m v by (simp add: content_of_def seq_index_0)
qed

lemma content_of_fails: "(\<exists>e. content_of data = Inl e) \<longleftrightarrow> spec_content data = None"
proof -
  have "(\<exists>e. content_of data = Inl e) \<longleftrightarrow> \<not> (\<exists>v. content_of data = Inr v)"
    by (cases "content_of data") simp_all
  then show ?thesis unfolding content_of_spec by simp
qed


subsection \<open>Parsing a successful response\<close>

subsection \<open>Parsing a successful response\<close>

lemma parse_response_cases:
  "parse_response json_loads raw =
     (case json_loads raw of
        None \<Rightarrow> Inl (RuntimeError (''Failed to parse DeepSeek response: '' @ raw))
      | Some data \<Rightarrow>
         (case spec_content data of
            None \<Rightarrow> Inl (RuntimeError (''Failed to parse DeepSeek response: '' @ raw))
          | Some c \<Rightarrow>
             (if \<not> is_str c \<or> list_all is_space (str_of c) then
                Inl (RuntimeError (''Failed to parse DeepSeek response: '' @ raw))
              else Inr (strip (str_of c)))))"
proof (cases "json_loads raw")
  case None
  then show ?thesis by (simp add: parse_response_def read_content_def)
next
  case (Some data)
  show ?thesis
  proof (cases "spec_content data")
    case None
    then obtain e where "content_of data = Inl e" using content_of_fails by blast
    with Some None show ?thesis by (simp add: parse_response_def read_content_def)
  next
    case (Some c)
    then have "content_of data = Inr c" using content_of_spec by blast
    with \<open>json_loads raw = Some data\<close> Some show ?thesis
      by (simp add: parse_response_def read_content_def strip_Nil_iff)
  qed
qed

lemma call_deepseek_eq:
  "call_deepseek json_loads api_key model temperature max_tokens system_prompt user_message w =
   (let req = build_request api_key
                (build_payload model temperature max_tokens system_prompt user_message)
    in ((case settle (respond w req) of
           Response (Text raw) \<Rightarrow> parse_response json_loads raw
         | Response (NotUtf8 body msg) \<Rightarrow>
             Inl (RuntimeError (''Unexpected DeepSeek API error: '' @ msg))
         | Response (ReadError msg) \<Rightarrow>
             Inl (RuntimeError (''Unexpected DeepSeek API error: '' @ msg))
         | HTTPError code eb \<Rightarrow>
             (case read_error_body eb of
                Inl e \<Rightarrow> Inl e
              | Inr body \<Rightarrow>
                  Inl (RuntimeError (''DeepSeek API HTTP '' @ str_int code @ '': '' @ body)))
         | URLError reason \<Rightarrow> Inl (RuntimeError (''DeepSeek API connection error: '' @ reason))
         | OtherException msg \<Rightarrow> Inl (RuntimeError (''Unexpected DeepSeek API error: '' @ msg))),
        w\<lparr>issued := issued w @ [(req, 90)]\<rparr>))"
  by (simp add: call_deepseek_def urlopen_def Let_def
        split: urlopen_outcome.splits body_outcome.splits sum.splits)

lemma takeWhile_all: "list_all P (takeWhile P xs)"
  by (induction xs) simp_all

lemma strip_trims:
  assumes "\<not> list_all is_space s"
  shows "strip s \<noteq> []" and "\<not> is_space (hd (strip s))" and "\<not> is_space (last (strip s))"
    and "\<exists>lead trail. s = lead @ strip s @ trail \<and> list_all is_space lead \<and>
           list_all is_space trail"
proof -
  from assms show n: "strip s \<noteq> []" by (simp add: strip_Nil_iff)
  from n show "\<not> is_space (hd (strip s))" and "\<not> is_space (last (strip s))"
    by (rule strip_ends)+
  have "list_all is_space (takeWhile is_space s)" by (rule takeWhile_all)
  moreover have "list_all is_space (rev (takeWhile is_space (rev (dropWhile is_space s))))"
    using takeWhile_all [of is_space "rev (dropWhile is_space s)"] by (simp add: list_all_iff)
  ultimately show "\<exists>lead trail. s = lead @ strip s @ trail \<and> list_all is_space lead \<and>
           list_all is_space trail"
    using strip_decomp [of s] by blast
qed

text \<open>
  Claim C5, as amended. When \<open>urlopen\<close> returns a response whose body is read and decodes
  as UTF-8 to the text \<open>raw\<close>, the client raises the \<open>RuntimeError\<close> "Failed to parse
  DeepSeek response: " followed by \<open>raw\<close> exactly when \<open>json.loads\<close> rejects \<open>raw\<close>, or
  one of the fields on the way to \<open>choices[0].message.content\<close> is absent, or the
  content is not a string, or it is empty or whitespace only. Otherwise it returns the
  content without its leading and trailing whitespace: the content is whitespace, then
  the result, then whitespace, and the result neither starts nor ends with whitespace.
  It raises nothing else. The decoded mock response
  \<open>{"choices":[{"message":{"content":"X"}}]}\<close> gives exactly \<open>"X"\<close>.
\<close>

theorem call_deepseek_parses_body:
  assumes "settle (respond w (build_request api_key
             (build_payload model temperature max_tokens system_prompt user_message))) =
           Response (Text raw)"
  shows "(fst (call_deepseek json_loads api_key model temperature max_tokens
                 system_prompt user_message w) =
            Inl (RuntimeError (''Failed to parse DeepSeek response: '' @ raw))
          \<longleftrightarrow>
            json_loads raw = None \<or>
            (\<exists>data. json_loads raw = Some data \<and>
               (spec_content data = None \<or>
                (\<exists>c. spec_content data = Some c \<and>
                   (\<not> is_str c \<or> list_all is_space (str_of c)))))) \<and>
         (\<forall>data s. json_loads raw = Some data \<and> spec_content data = Some (PyStr s) \<and>
              \<not> list_all is_space s \<longrightarrow>
            (\<exists>trimmed lead trail.
               fst (call_deepseek json_loads api_key model temperature max_tokens
                      system_prompt user_message w) = Inr trimmed \<and>
               trimmed = strip s \<and> s = lead @ trimmed @ trail \<and>
               list_all is_space lead \<and> list_all is_space trail \<and>
               trimmed \<noteq> [] \<and> \<not> is_space (hd trimmed) \<and> \<not> is_space (last trimmed))) \<and>
         ((\<exists>e. fst (call_deepseek json_loads api_key model temperature max_tokens
                   system_prompt user_message w) = Inl e) \<longrightarrow>
            fst (call_deepseek json_loads api_key model temperature max_tokens
                   system_prompt user_message w) =
              Inl (RuntimeError (''Failed to parse DeepSeek response: '' @ raw))) \<and>
         (json_loads raw = Some mock_decoded \<longrightarrow>
            fst (call_deepseek json_loads api_key model temperature max_tokens
                   system_prompt user_message w) = Inr ''X'')"
proof -
  have r: "fst (call_deepseek json_loads api_key model temperature max_tokens
                 system_prompt user_message w) = parse_response json_loads raw"
    using assms by (simp add: call_deepseek_eq Let_def)
  have x: "strip ''X'' = ''X''"
    by (simp add: strip_def lstrip_def rstrip_def is_space_def)
  have m: "spec_content (mock_decoded :: 'a py_value) = Some (PyStr ''X'')"
    by (simp add: mock_decoded_def)
  have t: "\<exists>trimmed lead trail.
               parse_response json_loads raw = Inr trimmed \<and>
               trimmed = strip s \<and> s = lead @ trimmed @ trail \<and>
               list_all is_space lead \<and> list_all is_space trail \<and>
               trimmed \<noteq> [] \<and> \<not> is_space (hd trimmed) \<and> \<not> is_space (last trimmed)"
    if "json_loads raw = Some data \<and> spec_content data = Some (PyStr s) \<and>
        \<not> list_all is_space s" for data s
  proof -
    from that have "parse_response json_loads raw = Inr (strip s)"
      by (simp add: parse_response_cases is_str_def str_of_def)
    moreover from that have "\<not> list_all is_space s" by simp
    ultimately show ?thesis using strip_trims [of s] by blast
  qed
  have i: "parse_response json_loads raw =
            Inl (RuntimeError (''Failed to parse DeepSeek response: '' @ raw))
          \<longleftrightarrow>
            json_loads raw = None \<or>
            (\<exists>data. json_loads raw = Some data \<and>
               (spec_content data = None \<or>
                (\<exists>c. spec_content data = Some c \<and>
                   (\<not> is_str c \<or> list_all is_space (str_of c)))))"
    unfolding parse_response_cases by (auto split: option.splits)
  have e: "(\<exists>e. parse_response json_loads raw = Inl e) \<longrightarrow>
            parse_response json_loads raw =
              Inl (RuntimeError (''Failed to parse DeepSeek response: '' @ raw))"
    unfolding parse_response_cases by (auto split: option.splits)
  have k: "json_loads raw = Some mock_decoded \<longrightarrow> parse_response json_loads raw = Inr ''X''"
    unfolding parse_response_cases
    by (auto simp: is_str_def str_of_def x m is_space_def split: option.splits)
  show ?thesis unfolding r using i t e k by blast
qed

theorem call_deepseek_parses_body_witness:
  "settle (respond \<lparr>respond = (\<lambda>req. Final (Response (Text mock_body))), issued = []\<rparr>
     (build_request ''sk-1'' (build_payload ''deepseek-chat'' (1::real) 512 ''system'' ''user'')))
     = Response (Text mock_body) \<and>
   (\<lambda>raw. if raw = mock_body then Some mock_decoded else None) mock_body =
     Some (mock_decoded :: real py_value) \<and>
   fst (call_deepseek (\<lambda>raw. if raw = mock_body then Some mock_decoded else None)
          ''sk-1'' ''deepseek-chat'' (1::real) 512 ''system'' ''user''
          \<lparr>respond = (\<lambda>req. Final (Response (Text mock_body))), issued = []\<rparr>) = Inr ''X'' \<and>
   fst (call_deepseek
          (\<lambda>raw. Some (PyDict [(''choices'', PyList [PyDict [(''message'',
                     PyDict [(''content'', PyStr '' A red fox. \<newline>'')])]])]))
          ''sk-1'' ''deepseek-chat'' (1::real) 512 ''system'' ''user''
          \<lparr>respond = (\<lambda>req. Final (Response (Text mock_body))), issued = []\<rparr>) =
     Inr ''A red fox.'' \<and>
   settle (respond \<lparr>respond = (\<lambda>req. Final (Response (Text ''<html>''))), issued = []\<rparr>
     (build_request ''sk-1'' (build_payload ''deepseek-chat'' (1::real) 512 ''system'' ''user'')))
     = Response (Text ''<html>'') \<and>
   fst (call_deepseek (\<lambda>raw. None)
          ''sk-1'' ''deepseek-chat'' (1::real) 512 ''system'' ''user''
          \<lparr>respond = (\<lambda>req. Final (Response (Text ''<html>''))), issued = []\<rparr>) =
     Inl (RuntimeError (''Failed to parse DeepSeek response: '' @ ''<html>''))"
proof -
  let ?w = "\<lparr>respond = (\<lambda>req. Final (Response (Text mock_body))), issued = []\<rparr> :: real world"
  let ?v = "\<lparr>respond = (\<lambda>req. Final (Response (Text ''<html>''))), issued = []\<rparr> :: real world"
  let ?jl = "\<lambda>raw. if raw = mock_body then Some (mock_decoded :: real py_value) else None"
  let ?fox = "PyDict [(''choices'', PyList [PyDict [(''message'',
                     PyDict [(''content'', PyStr '' A red fox. \<newline>'')])]])] :: real py_value"
  let ?req = "build_request ''sk-1'' (build_payload ''deepseek-chat'' (1::real) 512 ''system'' ''user'')"
  have a: "settle (respond ?w ?req) = Response (Text mock_body)" by simp
  have b: "settle (respond ?v ?req) = Response (Text ''<html>'')" by simp
  have j: "?jl mock_body = Some mock_decoded" by simp
  have n: "(\<lambda>raw. None :: real py_value option) ''<html>'' = None" by simp
  have f: "(\<lambda>raw. Some ?fox) mock_body = Some ?fox \<and>
           spec_content ?fox = Some (PyStr '' A red fox. \<newline>'') \<and>
           \<not> list_all is_space '' A red fox. \<newline>''"
    by (simp add: is_space_def)
  have s: "strip '' A red fox. \<newline>'' = ''A red fox.''"
    by (simp add: strip_def lstrip_def rstrip_def is_space_def)
  from call_deepseek_parses_body [OF a, of ?jl] j
  have 1: "fst (call_deepseek ?jl ''sk-1'' ''deepseek-chat'' (1::real) 512 ''system'' ''user'' ?w)
      = Inr ''X''" by blast
  from call_deepseek_parses_body [OF a, of "\<lambda>raw. Some ?fox"] f
  have "fst (call_deepseek (\<lambda>raw. Some ?fox) ''sk-1'' ''deepseek-chat'' (1::real) 512
      ''system'' ''user'' ?w) = Inr (strip '' A red fox. \<newline>'')" by blast
  then have 2: "fst (call_deepseek (\<lambda>raw. Some ?fox) ''sk-1'' ''deepseek-chat'' (1::real) 512
      ''system'' ''user'' ?w) = Inr ''A red fox.''" unfolding s .
  from call_deepseek_parses_body [OF b, of "\<lambda>raw. None"] n
  have 3: "fst (call_deepseek (\<lambda>raw. None) ''sk-1'' ''deepseek-chat'' (1::real) 512 ''system''
      ''user'' ?v) = Inl (RuntimeError (''Failed to parse DeepSeek response: '' @ ''<html>''))"
    by blast
  show ?thesis by (intro conjI a b j 1 2 3)
qed

text \<open>
  Counterexample to claim C5 as first stated, for every body of a successful response:
  it fails on a body that is not UTF-8; for the single byte 0xFF, which is not valid JSON, the client raises
  "Unexpected DeepSeek API error: ..." with the decoder's message, not the parse error,
  since the decoding sits in the first \<open>try\<close> block.
\<close>

theorem call_deepseek_parses_body_counterexample:
  "settle (respond
     \<lparr>respond = (\<lambda>req. Final (Response (NotUtf8 [0xFF] not_utf8_message))), issued = []\<rparr>
     (build_request ''sk-1'' (build_payload ''deepseek-chat'' (1::real) 512 ''system'' ''user'')))
     = Response (NotUtf8 [0xFF] not_utf8_message) \<and>
   fst (call_deepseek (\<lambda>raw. None) ''sk-1'' ''deepseek-chat'' (1::real) 512 ''system'' ''user''
          \<lparr>respond = (\<lambda>req. Final (Response (NotUtf8 [0xFF] not_utf8_message))),
           issued = []\<rparr>) =
     Inl (RuntimeError (''Unexpected DeepSeek API error: '' @ not_utf8_message)) \<and>
   \<not> prefix ''Failed to parse DeepSeek response: ''
       (''Unexpected DeepSeek API error: '' @ not_utf8_message)"
  by (simp add: call_deepseek_eq Let_def)

subsection \<open>A non-success status\<close>

text \<open>
  Claim C6, as amended. When \<open>urlopen\<close> raises \<open>HTTPError\<close> and the body of the error
  response is read (or there is none), the client raises a \<open>RuntimeError\<close> whose message
  is "DeepSeek API HTTP ", the status code, ": " and the body as decoded with undecodable
  bytes replaced, empty when there is none. So the message contains the code and that
  text. The code is written in decimal: for a code that is not negative, as the digits
  that denote it, without a leading zero.
\<close>

theorem call_deepseek_http_error:
  assumes "settle (respond w (build_request api_key
             (build_payload model temperature max_tokens system_prompt user_message))) =
           HTTPError code eb"
    and "read_error_body eb = Inr body"
  shows "\<exists>msg. fst (call_deepseek json_loads api_key model temperature max_tokens
                     system_prompt user_message w) = Inl (RuntimeError msg) \<and>
           msg = ''DeepSeek API HTTP '' @ str_int code @ '': '' @ body \<and>
           sublist (str_int code) msg \<and> sublist body msg \<and>
           (eb = NoFp \<longrightarrow> body = []) \<and>
           (\<forall>text. eb = ErrorText text \<longrightarrow> body = text) \<and>
           (0 \<le> code \<longrightarrow>
              list_all is_digit (str_int code) \<and> decimal_value (str_int code) = nat code \<and>
              (1 < length (str_int code) \<longrightarrow> hd (str_int code) \<noteq> CHR ''0''))"
proof -
  let ?msg = "''DeepSeek API HTTP '' @ str_int code @ '': '' @ body"
  have "fst (call_deepseek json_loads api_key model temperature max_tokens
                     system_prompt user_message w) = Inl (RuntimeError ?msg)"
    using assms by (simp add: call_deepseek_eq Let_def)
  moreover have "sublist (str_int code) ?msg" by (rule sublist_appendI)
  moreover have "sublist body ?msg"
  proof -
    have "?msg = (''DeepSeek API HTTP '' @ str_int code @ '': '') @ body" by simp
    then show ?thesis by (metis sublist_append_leftI)
  qed
  moreover have "eb = NoFp \<longrightarrow> body = []" "\<forall>text. eb = ErrorText text \<longrightarrow> body = text"
    using assms(2) by (auto simp: read_error_body_def)
  moreover have "0 \<le> code \<longrightarrow>
              list_all is_digit (str_int code) \<and> decimal_value (str_int code) = nat code \<and>
              (1 < length (str_int code) \<longrightarrow> hd (str_int code) \<noteq> CHR ''0'')"
    using str_int_decimal [of code] by blast
  ultimately show ?thesis by blast
qed

theorem call_deepseek_http_error_witness:
  "settle (respond
     \<lparr>respond = (\<lambda>req. Final (HTTPError 400 (ErrorText ''bad request''))), issued = []\<rparr>
     (build_request ''sk-1'' (build_payload ''deepseek-chat'' (1::real) 512 ''system'' ''user'')))
     = HTTPError 400 (ErrorText ''bad request'') \<and>
   read_error_body (ErrorText ''bad request'') = Inr ''bad request'' \<and>
   fst (call_deepseek (\<lambda>raw. None) ''sk-1'' ''deepseek-chat'' (1::real) 512 ''system'' ''user''
          \<lparr>respond = (\<lambda>req. Final (HTTPError 400 (ErrorText ''bad request''))),
           issued = []\<rparr>) =
     Inl (RuntimeError ''DeepSeek API HTTP 400: bad request'') \<and>
   sublist ''400'' ''DeepSeek API HTTP 400: bad request'' \<and>
   sublist ''bad request'' ''DeepSeek API HTTP 400: bad request'' \<and>
   read_error_body NoFp = Inr [] \<and>
   fst (call_deepseek (\<lambda>raw. None) ''sk-1'' ''deepseek-chat'' (1::real) 512 ''system'' ''user''
          \<lparr>respond = (\<lambda>req. Final (HTTPError 503 NoFp)), issued = []\<rparr>) =
     Inl (RuntimeError ''DeepSeek API HTTP 503: '')"
proof -
  let ?w = "\<lparr>respond = (\<lambda>req. Final (HTTPError 400 (ErrorText ''bad request''))),
             issued = []\<rparr> :: real world"
  let ?v = "\<lparr>respond = (\<lambda>req. Final (HTTPError 503 NoFp)), issued = []\<rparr> :: real world"
  let ?req = "build_request ''sk-1'' (build_payload ''deepseek-chat'' (1::real) 512 ''system'' ''user'')"
  have a: "settle (respond ?w ?req) = HTTPError 400 (ErrorText ''bad request'')" by simp
  have b: "settle (respond ?v ?req) = HTTPError 503 NoFp" by simp
  have r: "read_error_body (ErrorText ''bad request'') = Inr ''bad request''"
    by (simp add: read_error_body_def)
  have n: "read_error_body NoFp = Inr []" by (simp add: read_error_body_def)
  have c: "str_int 400 = ''400''" by code_simp
  have d: "str_int 503 = ''503''" by code_simp
  have e: "''DeepSeek API HTTP '' @ ''400'' @ '': '' @ ''bad request'' =
           ''DeepSeek API HTTP 400: bad request''" by simp
  have f: "''DeepSeek API HTTP '' @ ''503'' @ '': '' @ [] = ''DeepSeek API HTTP 503: ''" by simp
  from call_deepseek_http_error [OF a r, of "\<lambda>raw. None"]
  have 1: "fst (call_deepseek (\<lambda>raw. None) ''sk-1'' ''deepseek-chat'' (1::real) 512 ''system''
             ''user'' ?w) = Inl (RuntimeError ''DeepSeek API HTTP 400: bad request'') \<and>
           sublist ''400'' ''DeepSeek API HTTP 400: bad request'' \<and>
           sublist ''bad request'' ''DeepSeek API HTTP 400: bad request''"
    unfolding c e by blast
  from call_deepseek_http_error [OF b n, of "\<lambda>raw. None"]
  have 2: "fst (call_deepseek (\<lambda>raw. None) ''sk-1'' ''deepseek-chat'' (1::real) 512 ''system''
             ''user'' ?v) = Inl (RuntimeError ''DeepSeek API HTTP 503: '')"
    unfolding d f by blast
  from a r n 1 2 show ?thesis by (intro conjI) blast+
qed

text \<open>
  Counterexample to claim C6 as first stated, for every response with a non-success
  status: it fails on a redirect that \<open>urlopen\<close> follows; after a 302 whose follow-up answers with the mock
  body, the client returns \<open>"X"\<close> and raises nothing. It also fails when reading the
  error body raises: that exception leaves the client as it is, not as a \<open>RuntimeError\<close>,
  and carries neither the code nor the body.
\<close>

theorem call_deepseek_http_error_counterexample:
  "respond
     \<lparr>respond = (\<lambda>req. Followed 302 (Final (Response (Text mock_body)))), issued = []\<rparr>
     (build_request ''sk-1'' (build_payload ''deepseek-chat'' (1::real) 512 ''system'' ''user''))
     = Followed 302 (Final (Response (Text mock_body))) \<and>
   fst (call_deepseek (\<lambda>raw. if raw = mock_body then Some mock_decoded else None)
          ''sk-1'' ''deepseek-chat'' (1::real) 512 ''system'' ''user''
          \<lparr>respond = (\<lambda>req. Followed 302 (Final (Response (Text mock_body)))),
           issued = []\<rparr>) = Inr ''X'' \<and>
   fst (call_deepseek (\<lambda>raw. None) ''sk-1'' ''deepseek-chat'' (1::real) 512 ''system'' ''user''
          \<lparr>respond = (\<lambda>req. Final (HTTPError 500
               (ErrorReadFails ''IncompleteRead(0 bytes read, 100 more expected)''))),
           issued = []\<rparr>) =
     Inl (OtherError ''IncompleteRead(0 bytes read, 100 more expected)'')"
proof -
  have x: "strip ''X'' = ''X''"
    by (simp add: strip_def lstrip_def rstrip_def is_space_def)
  have m: "spec_content (mock_decoded :: real py_value) = Some (PyStr ''X'')"
    by (simp add: mock_decoded_def)
  show ?thesis
    by (simp add: call_deepseek_eq Let_def parse_response_cases read_error_body_def
          is_str_def str_of_def x m is_space_def)
qed

section \<open>Properties of the top-level operation\<close>

text \<open>
  Claim C3. With an absent, empty or whitespace-only \<open>api_key\<close> the operation raises
  \<open>ValueError\<close> "api_key is required." and leaves the world as it was: no request is
  issued.
\<close>

theorem generate_prompt_requires_api_key:
  assumes "list_all is_space (or_empty api_key)"
  shows "generate_prompt json_loads api_key model temperature max_tokens output_language
           target_model prompt_style system_prompt_mode custom_system_prompt text w =
         (Inl (ValueError ''api_key is required.''), w) \<and>
         issued (snd (generate_prompt json_loads api_key model temperature max_tokens
           output_language target_model prompt_style system_prompt_mode custom_system_prompt
           text w)) = issued w"
  using assms by (simp add: generate_prompt_def strip_Nil_iff)

theorem generate_prompt_requires_api_key_witness:
  "list_all is_space (or_empty (Some ''   '')) \<and>
   generate_prompt (\<lambda>raw. None) (Some ''   '') ''deepseek-chat'' (1::real) 512
     ''english'' ''sdxl'' ''Detailed'' ''Improve prompt (default)'' None (Some ''a cat'')
     \<lparr>respond = (\<lambda>req. Final (URLError ''unreachable'')), issued = []\<rparr> =
   (Inl (ValueError ''api_key is required.''),
    \<lparr>respond = (\<lambda>req. Final (URLError ''unreachable'')), issued = []\<rparr>)"
proof -
  have b: "list_all is_space (or_empty (Some ''   ''))"
    by (simp add: or_empty_def is_space_def)
  show ?thesis
    by (intro conjI b conjunct1 [OF generate_prompt_requires_api_key [OF b]])
qed

subsection \<open>The request that is issued\<close>

lemma generate_prompt_issues:
  assumes "\<not> list_all is_space (or_empty api_key)"
    and "resolve_system_prompt system_prompt_mode custom_system_prompt = Inr system_prompt"
    and "build_user_message text output_language target_model prompt_style = Inr user_message"
  shows "issued (snd (generate_prompt json_loads api_key model temperature max_tokens
           output_language target_model prompt_style system_prompt_mode custom_system_prompt
           text w)) =
         issued w @ [(build_request (strip (or_empty api_key))
                        (build_payload model temperature max_tokens system_prompt user_message),
                      90)]"
  using assms
  by (simp add: generate_prompt_def strip_Nil_iff call_deepseek_eq Let_def
        split: sum.splits prod.splits)

text \<open>
  Claim C10. Every call of the client hands exactly one request to \<open>urlopen\<close>, whose
  payload is the dict with the model name, the two messages in the order system, user
  (with the given system prompt and user message as contents), the temperature and
  \<open>max_tokens\<close>. Through the top-level operation the two contents are the resolved
  system prompt and the built user message.
\<close>

theorem call_deepseek_payload:
  "(\<exists>req. issued (snd (call_deepseek json_loads api_key model temperature max_tokens
                        system_prompt user_message w)) = issued w @ [(req, 90)] \<and>
      req_url req = DEEPSEEK_API_URL \<and> req_method req = ''POST'' \<and>
      req_data req =
        PyDict
         [(''model'', PyStr model),
          (''messages'',
             PyList
              [PyDict [(''role'', PyStr ''system''), (''content'', PyStr system_prompt)],
               PyDict [(''role'', PyStr ''user''), (''content'', PyStr user_message)]]),
          (''temperature'', PyFloat temperature),
          (''max_tokens'', PyInt max_tokens)] \<and>
      py_getitem (req_data req) (KStr ''messages'') =
        Inr (PyList
              [PyDict [(''role'', PyStr ''system''), (''content'', PyStr system_prompt)],
               PyDict [(''role'', PyStr ''user''), (''content'', PyStr user_message)]])) \<and>
   (\<not> list_all is_space (or_empty key) \<and>
    resolve_system_prompt system_prompt_mode custom_system_prompt = Inr composed_system \<and>
    build_user_message text output_language target_model prompt_style = Inr composed_user \<longrightarrow>
      issued (snd (generate_prompt json_loads key model temperature max_tokens
           output_language target_model prompt_style system_prompt_mode custom_system_prompt
           text w)) =
      issued w @ [(build_request (strip (or_empty key))
                     (build_payload model temperature max_tokens composed_system composed_user),
                   90)])"
proof (intro conjI impI)
  let ?req = "build_request api_key
                (build_payload model temperature max_tokens system_prompt user_message)"
  have "issued (snd (call_deepseek json_loads api_key model temperature max_tokens
                        system_prompt user_message w)) = issued w @ [(?req, 90)]"
    by (simp add: call_deepseek_eq Let_def)
  moreover have "req_url ?req = DEEPSEEK_API_URL" "req_method ?req = ''POST''"
    by (simp_all add: build_request_def)
  moreover have d: "req_data ?req =
        PyDict
         [(''model'', PyStr model),
          (''messages'',
             PyList
              [PyDict [(''role'', PyStr ''system''), (''content'', PyStr system_prompt)],
               PyDict [(''role'', PyStr ''user''), (''content'', PyStr user_message)]]),
          (''temperature'', PyFloat temperature),
          (''max_tokens'', PyInt max_tokens)]"
    by (simp add: build_request_def build_payload_def)
  moreover have "py_getitem (req_data ?req) (KStr ''messages'') =
        Inr (PyList
              [PyDict [(''role'', PyStr ''system''), (''content'', PyStr system_prompt)],
               PyDict [(''role'', PyStr ''user''), (''content'', PyStr user_message)]])"
    unfolding d by simp
  ultimately show "\<exists>req. issued (snd (call_deepseek json_loads api_key model temperature max_tokens
                        system_prompt user_message w)) = issued w @ [(req, 90)] \<and>
      req_url req = DEEPSEEK_API_URL \<and> req_method req = ''POST'' \<and>
      req_data req =
        PyDict
         [(''model'', PyStr model),
          (''messages'',
             PyList
              [PyDict [(''role'', PyStr ''system''), (''content'', PyStr system_prompt)],
               PyDict [(''role'', PyStr ''user''), (''content'', PyStr user_message)]]),
          (''temperature'', PyFloat temperature),
          (''max_tokens'', PyInt max_tokens)] \<and>
      py_getitem (req_data req) (KStr ''messages'') =
        Inr (PyList
              [PyDict [(''role'', PyStr ''system''), (''content'', PyStr system_prompt)],
               PyDict [(''role'', PyStr ''user''), (''content'', PyStr user_message)]])"
    by blast
next
  assume "\<not> list_all is_space (or_empty key) \<and>
    resolve_system_prompt system_prompt_mode custom_system_prompt = Inr composed_system \<and>
    build_user_message text output_language target_model prompt_style = Inr composed_user"
  then have "\<not> list_all is_space (or_empty key)"
    and "resolve_system_prompt system_prompt_mode custom_system_prompt = Inr composed_system"
    and "build_user_message text output_language target_model prompt_style = Inr composed_user"
    by simp_all
  then show "issued (snd (generate_prompt json_loads key model temperature max_tokens
           output_language target_model prompt_style system_prompt_mode custom_system_prompt
           text w)) =
      issued w @ [(build_request (strip (or_empty key))
                     (build_payload model temperature max_tokens composed_system composed_user),
                   90)]"
    by (rule generate_prompt_issues)
qed

theorem call_deepseek_payload_witness:
  "\<not> list_all is_space (or_empty (Some '' sk-1 '')) \<and>
   (\<exists>composed_system composed_user.
      resolve_system_prompt ''Custom'' (Some ''Be terse.'') = Inr composed_system \<and>
      build_user_message None ''english'' ''sdxl'' ''Detailed'' = Inr composed_user \<and>
      composed_system = ''Be terse.'' \<and>
      issued (snd (generate_prompt (\<lambda>raw. None) (Some '' sk-1 '') ''deepseek-chat'' (1::real) 512
           ''english'' ''sdxl'' ''Detailed'' ''Custom'' (Some ''Be terse.'') None
           \<lparr>respond = (\<lambda>req. Final (URLError ''timed out'')), issued = []\<rparr>)) =
      [(build_request ''sk-1''
          (build_payload ''deepseek-chat'' 1 512 composed_system composed_user), 90)])"
proof -
  let ?w = "\<lparr>respond = (\<lambda>req. Final (URLError ''timed out'')), issued = []\<rparr> :: real world"
  have k: "\<not> list_all is_space (or_empty (Some '' sk-1 ''))"
    by (simp add: or_empty_def is_space_def)
  have s: "strip (or_empty (Some '' sk-1 '')) = ''sk-1''"
    by (simp add: or_empty_def strip_def lstrip_def rstrip_def is_space_def)
  have r: "resolve_system_prompt ''Custom'' (Some ''Be terse.'') = Inr ''Be terse.''"
    by (simp add: resolve_system_prompt_def or_empty_def strip_def lstrip_def rstrip_def
          is_space_def)
  obtain u where u: "build_user_message None ''english'' ''sdxl'' ''Detailed'' = Inr u"
    using build_user_message_eq by blast
  from call_deepseek_payload [of "\<lambda>raw. None" "''sk-1''" "''deepseek-chat''" "1::real" 512
      "''Be terse.''" u ?w "Some '' sk-1 ''" "''Custom''" "Some ''Be terse.''" "''Be terse.''"
      None "''english''" "''sdxl''" "''Detailed''" u] k r u
  have "issued (snd (generate_prompt (\<lambda>raw. None) (Some '' sk-1 '') ''deepseek-chat'' (1::real) 512
           ''english'' ''sdxl'' ''Detailed'' ''Custom'' (Some ''Be terse.'') None ?w)) =
      issued ?w @ [(build_request (strip (or_empty (Some '' sk-1 '')))
          (build_payload ''deepseek-chat'' 1 512 ''Be terse.'' u), 90)]"
    by blast
  then have "issued (snd (generate_prompt (\<lambda>raw. None) (Some '' sk-1 '') ''deepseek-chat'' (1::real) 512
           ''english'' ''sdxl'' ''Detailed'' ''Custom'' (Some ''Be terse.'') None ?w)) =
      [(build_request ''sk-1'' (build_payload ''deepseek-chat'' 1 512 ''Be terse.'' u), 90)]"
    unfolding s by simp
  with k r u show ?thesis by blast
qed




end
